theory Spec2Isabelle
  imports Complex_Main "HOL-Library.Multiset"
begin

section \<open>Vectors\<close>

text \<open>
  The generators compute with Python floats and \<open>mathutils.Vector\<close>. Coordinates are
  modelled as real numbers: rounding is left out, everything else (comparisons against
  the thresholds, the order of the operations) is as in the source.
\<close>

type_synonym vec3 = "real \<times> real \<times> real"

fun vadd :: "vec3 \<Rightarrow> vec3 \<Rightarrow> vec3" where
  "vadd (a, b, c) (x, y, z) = (a + x, b + y, c + z)"

fun vsub :: "vec3 \<Rightarrow> vec3 \<Rightarrow> vec3" where
  "vsub (a, b, c) (x, y, z) = (a - x, b - y, c - z)"

fun vscale :: "vec3 \<Rightarrow> real \<Rightarrow> vec3" where
  "vscale (a, b, c) k = (a * k, b * k, c * k)"

fun dot :: "vec3 \<Rightarrow> vec3 \<Rightarrow> real" where
  "dot (a, b, c) (x, y, z) = a * x + b * y + c * z"

fun cross :: "vec3 \<Rightarrow> vec3 \<Rightarrow> vec3" where
  "cross (a, b, c) (x, y, z) = (b * z - c * y, c * x - a * z, a * y - b * x)"

text \<open>\<open>Vector.length\<close>.\<close>

definition vlength :: "vec3 \<Rightarrow> real" where
  "vlength v = sqrt (dot v v)"

text \<open>\<open>Vector.normalize()\<close> leaves a zero vector as it is.\<close>

definition normalize :: "vec3 \<Rightarrow> vec3" where
  "normalize v = (if vlength v = 0 then v else vscale v (1 / vlength v))"

fun vz :: "vec3 \<Rightarrow> real" where
  "vz (a, b, c) = c"

fun vy :: "vec3 \<Rightarrow> real" where
  "vy (a, b, c) = b"

fun vx :: "vec3 \<Rightarrow> real" where
  "vx (a, b, c) = a"

section \<open>The bmesh accumulator\<close>

text \<open>
  A \<open>bmesh\<close> under construction: the coordinates of its vertices in creation order (a
  vertex is referred to by its index) and its faces, each the list of its vertices in
  winding order. \<open>bm.verts.new\<close> always succeeds, also on coordinates that are already
  taken. \<open>bm.faces.new\<close> raises \<open>ValueError\<close> on fewer than three vertices, on a vertex
  that occurs twice, and when a face on the same vertices exists already.
\<close>

record bmesh =
  bm_verts :: "vec3 list"
  bm_faces :: "nat list list"

datatype bm_error = FaceTooFewVerts | FaceRepeatedVert | FaceExists

definition bmesh_new :: bmesh where
  "bmesh_new = \<lparr>bm_verts = [], bm_faces = []\<rparr>"

definition verts_new :: "bmesh \<Rightarrow> vec3 \<Rightarrow> nat \<times> bmesh" where
  "verts_new bm co = (length (bm_verts bm), bm\<lparr>bm_verts := bm_verts bm @ [co]\<rparr>)"

definition face_exists :: "bmesh \<Rightarrow> nat list \<Rightarrow> bool" where
  "face_exists bm vs = list_ex (\<lambda>f. length f = length vs \<and> set vs \<subseteq> set f) (bm_faces bm)"

definition faces_new :: "bmesh \<Rightarrow> nat list \<Rightarrow> bm_error + bmesh" where
  "faces_new bm vs =
     (if length vs < 3 then Inl FaceTooFewVerts
      else if \<not> distinct vs then Inl FaceRepeatedVert
      else if face_exists bm vs then Inl FaceExists
      else Inr (bm\<lparr>bm_faces := bm_faces bm @ [vs]\<rparr>))"

text \<open>Sequencing of steps that may raise: the first error ends the build.\<close>

fun bind_err :: "'e + 'a \<Rightarrow> ('a \<Rightarrow> 'e + 'b) \<Rightarrow> 'e + 'b" where
  "bind_err (Inl e) f = Inl e"
| "bind_err (Inr x) f = f x"

text \<open>\<open>[bm.verts.new(co) for co in cs]\<close>: the new vertices, in order.\<close>

fun verts_new_all :: "bmesh \<Rightarrow> vec3 list \<Rightarrow> nat list \<times> bmesh" where
  "verts_new_all bm [] = ([], bm)"
| "verts_new_all bm (co # cs) =
     (let (v, bm1) = verts_new bm co;
          (vs, bm2) = verts_new_all bm1 cs
      in (v # vs, bm2))"

text \<open>A run of \<open>bm.faces.new\<close> statements, one after the other.\<close>

fun faces_new_all :: "bmesh \<Rightarrow> nat list list \<Rightarrow> bm_error + bmesh" where
  "faces_new_all bm [] = Inr bm"
| "faces_new_all bm (f # fs) = bind_err (faces_new bm f) (\<lambda>bm1. faces_new_all bm1 fs)"

text \<open>\<open>bm.to_mesh(mesh)\<close>: the finished mesh datablock.\<close>

record mesh =
  vertices :: "vec3 list"
  polygons :: "nat list list"

definition to_mesh :: "bmesh \<Rightarrow> mesh" where
  "to_mesh bm = \<lparr>vertices = bm_verts bm, polygons = bm_faces bm\<rparr>"

text \<open>
  The pattern of the builders that list their vertices and then their faces: a new bmesh,
  the vertices \<open>v1, v2, ...\<close> at the coordinates \<open>cs\<close>, the faces \<open>fs\<close> (each a list of
  positions in the vertex list: \<open>v1\<close> is 0), then \<open>to_mesh\<close>.
\<close>

definition build_faces :: "vec3 list \<Rightarrow> nat list list \<Rightarrow> bm_error + mesh" where
  "build_faces cs fs =
     (let (vs, bm) = verts_new_all bmesh_new cs
      in bind_err (faces_new_all bm (map (map (\<lambda>k. vs ! k)) fs)) (\<lambda>bm. Inr (to_mesh bm)))"

section \<open>Profile extrusion (side panels)\<close>

text \<open>
  The three side-panel builders (\<open>create_side_panel\<close>, \<open>create_side_panel_driving\<close>,
  \<open>create_side_panel_lightgun\<close>) share one body and differ in the profile and in the
  two y coordinates. \<open>extrude_profile\<close> is that body: the front ring, the back ring, the
  front face, the reversed back face, then for \<open>i in range(n)\<close> the side quad
  \<open>[front[i], front[j], back[j], back[i]]\<close> with \<open>j = (i + 1) % n\<close>.
\<close>

definition side_quad :: "nat list \<Rightarrow> nat list \<Rightarrow> nat \<Rightarrow> nat \<Rightarrow> nat list" where
  "side_quad front_verts back_verts n i =
     (let j = (i + 1) mod n
      in [front_verts ! i, front_verts ! j, back_verts ! j, back_verts ! i])"

fun side_faces :: "nat list \<Rightarrow> nat list \<Rightarrow> nat \<Rightarrow> nat list \<Rightarrow> bmesh \<Rightarrow> bm_error + bmesh" where
  "side_faces front_verts back_verts n [] bm = Inr bm"
| "side_faces front_verts back_verts n (i # ks) bm =
     bind_err (faces_new bm (side_quad front_verts back_verts n i))
       (side_faces front_verts back_verts n ks)"

definition extrude_profile :: "(real \<times> real) list \<Rightarrow> real \<Rightarrow> real \<Rightarrow> bm_error + mesh" where
  "extrude_profile profile_2d y_front y_back =
     (let bm = bmesh_new;
          (front_verts, bm) = verts_new_all bm (map (\<lambda>(x, z). (x, y_front, z)) profile_2d);
          (back_verts, bm) = verts_new_all bm (map (\<lambda>(x, z). (x, y_back, z)) profile_2d)
      in bind_err (faces_new bm front_verts) (\<lambda>bm.
         bind_err (faces_new bm (rev back_verts)) (\<lambda>bm.
         let n = length profile_2d
         in bind_err (side_faces front_verts back_verts n [0..<n] bm) (\<lambda>bm.
            Inr (to_mesh bm)))))"

section \<open>The host scene\<close>

text \<open>
  The scene of the host editor, as far as the generators use it. An object has an
  identity (\<open>oid\<close>; Python holds objects by reference), a name, an optional parent, a
  location, an optional axis-angle rotation and its geometry: the meshes built with
  bmesh and the host's primitives, which stay opaque apart from the arguments they were
  created with. Joining objects concatenates their geometry.

  \<open>obj.scale\<close>, \<open>obj.rotation_euler\<close> and \<open>transform_apply\<close> only change the vertex
  data of host primitives and the local transform. The model keeps neither, so these
  statements have no counterpart below. The host's renaming of an object whose name is
  taken is not modelled either: a name is stored as it is assigned.
\<close>

datatype part =
    Built mesh
  | Cube real
  | Plane real
  | Cylinder real real
  | Torus real real
  | UVSphere real

record obj =
  oid :: nat
  name :: string
  parent :: "nat option"
  location :: vec3
  rotation_axis_angle :: "(real \<times> vec3) option"
  geometry :: "part list"

record scene =
  objects :: "obj list"
  selected :: "nat list"
  active :: "nat option"
  next_oid :: nat

text \<open>
  \<open>clear_scene\<close>: select all, delete. Nothing of the former scene is left, so object
  identities start again at 0.
\<close>

definition clear_scene :: "scene \<Rightarrow> scene" where
  "clear_scene s = \<lparr>objects = [], selected = [], active = None, next_oid = 0\<rparr>"

text \<open>
  The \<open>bpy.ops.mesh.primitive_*_add\<close> and \<open>bpy.ops.object.empty_add\<close> operators: the new
  object carries the host's default name, is the only selected object and is the active
  one (\<open>bpy.context.active_object\<close>), which the model returns.
\<close>

definition add_operator :: "string \<Rightarrow> part list \<Rightarrow> vec3 \<Rightarrow> scene \<Rightarrow> nat \<times> scene" where
  "add_operator default_name geom loc s =
     (let i = next_oid s
      in (i, \<lparr>objects = objects s @
                  [\<lparr>oid = i, name = default_name, parent = None, location = loc,
                    rotation_axis_angle = None, geometry = geom\<rparr>],
               selected = [i], active = Some i, next_oid = i + 1\<rparr>))"

definition empty_add :: "vec3 \<Rightarrow> scene \<Rightarrow> nat \<times> scene" where
  "empty_add loc s = add_operator ''Empty'' [] loc s"

definition primitive_cube_add :: "real \<Rightarrow> vec3 \<Rightarrow> scene \<Rightarrow> nat \<times> scene" where
  "primitive_cube_add sz loc s = add_operator ''Cube'' [Cube sz] loc s"

definition primitive_plane_add :: "real \<Rightarrow> vec3 \<Rightarrow> scene \<Rightarrow> nat \<times> scene" where
  "primitive_plane_add sz loc s = add_operator ''Plane'' [Plane sz] loc s"

definition primitive_cylinder_add :: "real \<Rightarrow> real \<Rightarrow> vec3 \<Rightarrow> scene \<Rightarrow> nat \<times> scene" where
  "primitive_cylinder_add radius depth loc s = add_operator ''Cylinder'' [Cylinder radius depth] loc s"

definition primitive_torus_add :: "real \<Rightarrow> real \<Rightarrow> vec3 \<Rightarrow> scene \<Rightarrow> nat \<times> scene" where
  "primitive_torus_add major_radius minor_radius loc s =
     add_operator ''Torus'' [Torus major_radius minor_radius] loc s"

definition primitive_uv_sphere_add :: "real \<Rightarrow> vec3 \<Rightarrow> scene \<Rightarrow> nat \<times> scene" where
  "primitive_uv_sphere_add radius loc s = add_operator ''Sphere'' [UVSphere radius] loc s"

text \<open>
  \<open>obj = bpy.data.objects.new(name, mesh)\<close> followed by
  \<open>bpy.context.collection.objects.link(obj)\<close>: the object is in the scene, at the origin;
  selection and active object are untouched.
\<close>

definition objects_new :: "string \<Rightarrow> mesh \<Rightarrow> scene \<Rightarrow> nat \<times> scene" where
  "objects_new nm m s =
     (let i = next_oid s
      in (i, s\<lparr>objects := objects s @
                  [\<lparr>oid = i, name = nm, parent = None, location = (0, 0, 0),
                    rotation_axis_angle = None, geometry = [Built m]\<rparr>],
                next_oid := i + 1\<rparr>))"

text \<open>Attribute assignments on an object held by reference.\<close>

definition update_obj :: "nat \<Rightarrow> (obj \<Rightarrow> obj) \<Rightarrow> scene \<Rightarrow> scene" where
  "update_obj i f s = s\<lparr>objects := map (\<lambda>ob. if oid ob = i then f ob else ob) (objects s)\<rparr>"

definition set_name :: "nat \<Rightarrow> string \<Rightarrow> scene \<Rightarrow> scene" where
  "set_name i nm s = update_obj i (\<lambda>ob. ob\<lparr>name := nm\<rparr>) s"

definition set_parent :: "nat \<Rightarrow> nat \<Rightarrow> scene \<Rightarrow> scene" where
  "set_parent i p s = update_obj i (\<lambda>ob. ob\<lparr>parent := Some p\<rparr>) s"

definition set_location :: "nat \<Rightarrow> vec3 \<Rightarrow> scene \<Rightarrow> scene" where
  "set_location i loc s = update_obj i (\<lambda>ob. ob\<lparr>location := loc\<rparr>) s"

definition set_rotation_axis_angle :: "nat \<Rightarrow> real \<times> vec3 \<Rightarrow> scene \<Rightarrow> scene" where
  "set_rotation_axis_angle i rot s = update_obj i (\<lambda>ob. ob\<lparr>rotation_axis_angle := Some rot\<rparr>) s"

text \<open>Selection, and \<open>bpy.ops.object.join()\<close>: the selected objects other than the
  active one are merged into it and leave the scene.\<close>

definition select_all_deselect :: "scene \<Rightarrow> scene" where
  "select_all_deselect s = s\<lparr>selected := []\<rparr>"

definition select_set :: "nat \<Rightarrow> scene \<Rightarrow> scene" where
  "select_set i s = s\<lparr>selected := selected s @ [i]\<rparr>"

definition set_active :: "nat \<Rightarrow> scene \<Rightarrow> scene" where
  "set_active i s = s\<lparr>active := Some i\<rparr>"

definition join :: "scene \<Rightarrow> scene" where
  "join s =
     (case active s of
        None \<Rightarrow> s
      | Some a \<Rightarrow>
          (let merged = filter (\<lambda>ob. oid ob \<in> set (selected s) \<and> oid ob \<noteq> a) (objects s);
               kept = filter (\<lambda>ob. \<not> (oid ob \<in> set (selected s) \<and> oid ob \<noteq> a)) (objects s)
           in s\<lparr>objects :=
                   map (\<lambda>ob. if oid ob = a
                              then ob\<lparr>geometry := geometry ob @ concat (map geometry merged)\<rparr>
                              else ob) kept,
                 selected := [a]\<rparr>))"

section \<open>Cutout panels (bezels)\<close>

text \<open>
  The four \<open>create_bezel_with_cutout\<close> functions create the vertices \<open>v1 .. v8\<close>
  (indices 0 to 7) and \<open>v1b .. v8b\<close> (indices 8 to 15) in this order and then the same
  sixteen faces. They differ in the axes the coordinates go to.
\<close>

definition bezel_faces :: "nat list list" where
  "bezel_faces =
     [[0, 1, 5, 4], [1, 2, 6, 5], [2, 3, 7, 6], [3, 0, 4, 7],
      [12, 13, 9, 8], [13, 14, 10, 9], [14, 15, 11, 10], [15, 12, 8, 11],
      [0, 8, 9, 1], [1, 9, 10, 2], [2, 10, 11, 3], [3, 11, 8, 0],
      [4, 5, 13, 12], [5, 6, 14, 13], [6, 7, 15, 14], [7, 4, 12, 15]]"

text \<open>Upright: no parameters; the panel lies in the x-z plane, front at \<open>-thickness/2\<close>.\<close>

definition bezel_mesh_cabinet :: "bm_error + mesh" where
  "bezel_mesh_cabinet =
     (let outer_width = 0.45; outer_height = 0.40; thickness = 0.01;
          cutout_width = 0.35; cutout_height = 0.28;
          hw = outer_width / 2; hh = outer_height / 2;
          chw = cutout_width / 2; chh = cutout_height / 2
      in build_faces
            [(- hw, - thickness / 2, - hh), (hw, - thickness / 2, - hh),
             (hw, - thickness / 2, hh), (- hw, - thickness / 2, hh),
             (- chw, - thickness / 2, - chh), (chw, - thickness / 2, - chh),
             (chw, - thickness / 2, chh), (- chw, - thickness / 2, chh),
             (- hw, thickness / 2, - hh), (hw, thickness / 2, - hh),
             (hw, thickness / 2, hh), (- hw, thickness / 2, hh),
             (- chw, thickness / 2, - chh), (chw, thickness / 2, - chh),
             (chw, thickness / 2, chh), (- chw, thickness / 2, chh)]
            bezel_faces)"

text \<open>Cocktail: the panel lies flat in the x-y plane, top ring at \<open>+t\<close>.\<close>

definition bezel_mesh_cocktail :: "real \<Rightarrow> real \<Rightarrow> real \<Rightarrow> real \<Rightarrow> real \<Rightarrow> bm_error + mesh" where
  "bezel_mesh_cocktail outer_w outer_h cutout_w cutout_h thickness =
     (let hw = outer_w / 2; hh = outer_h / 2;
          chw = cutout_w / 2; chh = cutout_h / 2;
          t = thickness / 2
      in build_faces
            [(- hw, - hh, t), (hw, - hh, t), (hw, hh, t), (- hw, hh, t),
             (- chw, - chh, t), (chw, - chh, t), (chw, chh, t), (- chw, chh, t),
             (- hw, - hh, - t), (hw, - hh, - t), (hw, hh, - t), (- hw, hh, - t),
             (- chw, - chh, - t), (chw, - chh, - t), (chw, chh, - t), (- chw, chh, - t)]
            bezel_faces)"

text \<open>Driving and LightGun (the two functions are the same up to the default thickness):
  the panel lies in the x-z plane, front ring at \<open>-t\<close>.\<close>

definition bezel_mesh_upright_plane :: "real \<Rightarrow> real \<Rightarrow> real \<Rightarrow> real \<Rightarrow> real \<Rightarrow> bm_error + mesh" where
  "bezel_mesh_upright_plane outer_w outer_h cutout_w cutout_h thickness =
     (let hw = outer_w / 2; hh = outer_h / 2;
          chw = cutout_w / 2; chh = cutout_h / 2;
          t = thickness / 2
      in build_faces
            [(- hw, - t, - hh), (hw, - t, - hh), (hw, - t, hh), (- hw, - t, hh),
             (- chw, - t, - chh), (chw, - t, - chh), (chw, - t, chh), (- chw, - t, chh),
             (- hw, t, - hh), (hw, t, - hh), (hw, t, hh), (- hw, t, hh),
             (- chw, t, - chh), (chw, t, - chh), (chw, t, chh), (- chw, t, chh)]
            bezel_faces)"

definition create_bezel_with_cutout_cabinet :: "scene \<Rightarrow> bm_error + (nat \<times> scene)" where
  "create_bezel_with_cutout_cabinet s =
     bind_err bezel_mesh_cabinet (\<lambda>m.
       let (ob, s) = objects_new ''bezel'' m s;
           s = set_location ob (-0.07, 0, 1.35) s
       in Inr (ob, s))"

definition create_bezel_with_cutout_cocktail ::
  "string \<Rightarrow> real \<Rightarrow> real \<Rightarrow> real \<Rightarrow> real \<Rightarrow> real \<Rightarrow> scene \<Rightarrow> bm_error + (nat \<times> scene)" where
  "create_bezel_with_cutout_cocktail nm outer_w outer_h cutout_w cutout_h thickness s =
     bind_err (bezel_mesh_cocktail outer_w outer_h cutout_w cutout_h thickness) (\<lambda>m.
       Inr (objects_new nm m s))"

definition create_bezel_with_cutout_driving ::
  "string \<Rightarrow> real \<Rightarrow> real \<Rightarrow> real \<Rightarrow> real \<Rightarrow> real \<Rightarrow> scene \<Rightarrow> bm_error + (nat \<times> scene)" where
  "create_bezel_with_cutout_driving nm outer_w outer_h cutout_w cutout_h thickness s =
     bind_err (bezel_mesh_upright_plane outer_w outer_h cutout_w cutout_h thickness) (\<lambda>m.
       Inr (objects_new nm m s))"

definition create_bezel_with_cutout_lightgun ::
  "string \<Rightarrow> real \<Rightarrow> real \<Rightarrow> real \<Rightarrow> real \<Rightarrow> real \<Rightarrow> scene \<Rightarrow> bm_error + (nat \<times> scene)" where
  "create_bezel_with_cutout_lightgun nm outer_w outer_h cutout_w cutout_h thickness s =
     bind_err (bezel_mesh_upright_plane outer_w outer_h cutout_w cutout_h thickness) (\<lambda>m.
       Inr (objects_new nm m s))"

section \<open>Path sweeps (T-molding)\<close>

subsection \<open>Upright: box strips in one bmesh\<close>

text \<open>The choice of the two offset vectors in \<open>add_strip\<close>; \<open>direction\<close> is normalised.\<close>

definition strip_perps :: "vec3 \<Rightarrow> real \<Rightarrow> real \<Rightarrow> vec3 \<times> vec3" where
  "strip_perps direction w d =
     (if \<bar>vz direction\<bar> > 0.9 then (vscale (1, 0, 0) (w / 2), vscale (0, 1, 0) (d / 2))
      else if \<bar>vy direction\<bar> > 0.9 then (vscale (1, 0, 0) (d / 2), vscale (0, 0, 1) (w / 2))
      else (vscale (0, 1, 0) (d / 2), vscale (0, 0, 1) (w / 2)))"

definition strip_corners :: "vec3 \<Rightarrow> vec3 \<Rightarrow> vec3 \<Rightarrow> vec3 list" where
  "strip_corners point perp1 perp2 =
     [vsub (vsub point perp1) perp2, vsub (vadd point perp1) perp2,
      vadd (vadd point perp1) perp2, vadd (vsub point perp1) perp2]"

text \<open>The six faces of a strip on its eight vertices \<open>v[0] .. v[7]\<close>: start cap, end cap
  and four sides.\<close>

definition strip_faces :: "nat list \<Rightarrow> nat list list" where
  "strip_faces v =
     [[v ! 0, v ! 1, v ! 2, v ! 3],
      [v ! 7, v ! 6, v ! 5, v ! 4],
      [v ! 0, v ! 4, v ! 5, v ! 1],
      [v ! 1, v ! 5, v ! 6, v ! 2],
      [v ! 2, v ! 6, v ! 7, v ! 3],
      [v ! 3, v ! 7, v ! 4, v ! 0]]"

definition add_strip :: "vec3 \<Rightarrow> vec3 \<Rightarrow> real \<Rightarrow> real \<Rightarrow> bmesh \<Rightarrow> bm_error + bmesh" where
  "add_strip p1 p2 w d bm =
     (let start = p1; endp = p2;
          direction = vsub endp start;
          seg_length = vlength direction
      in if seg_length < 0.001 then Inr bm
         else
           (let direction = normalize direction;
                (perp1, perp2) = strip_perps direction w d;
                (v, bm) = verts_new_all bm
                   (strip_corners start perp1 perp2 @ strip_corners endp perp1 perp2)
            in faces_new_all bm (strip_faces v)))"

definition t_molding_mesh :: "bm_error + mesh" where
  "t_molding_mesh =
     (let width = 0.012; depth = 0.008;
          bm = bmesh_new
      in bind_err (add_strip (-0.04, -0.26, 0.02) (-0.04, -0.26, 1.90) width depth bm) (\<lambda>bm.
         bind_err (add_strip (-0.04, 0.26, 0.02) (-0.04, 0.26, 1.90) width depth bm) (\<lambda>bm.
         bind_err (add_strip (-0.04, -0.26, 0.02) (-0.04, 0.26, 0.02) width depth bm) (\<lambda>bm.
         bind_err (add_strip (-0.08, -0.26, 1.90) (-0.08, 0.26, 1.90) width depth bm) (\<lambda>bm.
         bind_err (add_strip (-0.04, -0.26, 0.70) (-0.04, 0.26, 0.70) width depth bm) (\<lambda>bm.
         Inr (to_mesh bm)))))))"

text \<open>
  \<open>add_strip\<close> is a function local to \<open>create_t_molding\<close>; these are the end points of
  all its calls, in order: left vertical, right vertical, bottom front, top front and
  control panel front edge. \<open>add_strips\<close> is a sequence of calls on one bmesh.
\<close>

definition t_molding_strips :: "(vec3 \<times> vec3) list" where
  "t_molding_strips =
     [((-0.04, -0.26, 0.02), (-0.04, -0.26, 1.90)),
      ((-0.04, 0.26, 0.02), (-0.04, 0.26, 1.90)),
      ((-0.04, -0.26, 0.02), (-0.04, 0.26, 0.02)),
      ((-0.08, -0.26, 1.90), (-0.08, 0.26, 1.90)),
      ((-0.04, -0.26, 0.70), (-0.04, 0.26, 0.70))]"

fun add_strips :: "(vec3 \<times> vec3) list \<Rightarrow> real \<Rightarrow> real \<Rightarrow> bmesh \<Rightarrow> bm_error + bmesh" where
  "add_strips [] w d bm = Inr bm"
| "add_strips ((p1, p2) # ps) w d bm = bind_err (add_strip p1 p2 w d bm) (add_strips ps w d)"

definition create_t_molding :: "scene \<Rightarrow> bm_error + (nat \<times> scene)" where
  "create_t_molding s =
     bind_err t_molding_mesh (\<lambda>m. Inr (objects_new ''t-molding'' m s))"

subsection \<open>Cocktail, Driving, LightGun: one cylinder per segment, joined\<close>

text \<open>
  \<open>create_tube_segment\<close> is defined three times, with the same text, inside
  \<open>create_t_molding_cocktail\<close>, \<open>create_t_molding_driving\<close> and
  \<open>create_t_molding_lightgun\<close>. \<open>tube_up\<close> is its choice of the reference axis,
  \<open>tube_rotation\<close> the axis-angle rotation it assigns (none if the rotation axis is
  shorter than 0.001); both take the normalised direction.
\<close>

definition tube_up :: "vec3 \<Rightarrow> vec3" where
  "tube_up direction =
     (let up = (0, 0, 1)
      in if \<bar>dot direction up\<bar> > 0.999 then (1, 0, 0) else up)"

definition tube_rotation :: "vec3 \<Rightarrow> (real \<times> vec3) option" where
  "tube_rotation direction =
     (let up = tube_up direction;
          rot_axis = cross up direction
      in if vlength rot_axis > 0.001
         then (let rot_axis = normalize rot_axis;
                   rot_angle = arccos (max (-1) (min 1 (dot up direction)))
               in Some (rot_angle, rot_axis))
         else None)"

definition create_tube_segment :: "vec3 \<Rightarrow> vec3 \<Rightarrow> real \<Rightarrow> scene \<Rightarrow> nat option \<times> scene" where
  "create_tube_segment p1 p2 r s =
     (let direction = vsub p2 p1;
          seg_length = vlength direction
      in if seg_length < 0.001 then (None, s)
         else
           (let (cyl, s) = primitive_cylinder_add r seg_length
                  ((vx p1 + vx p2) / 2, (vy p1 + vy p2) / 2, (vz p1 + vz p2) / 2) s;
                direction = normalize direction;
                s = (case tube_rotation direction of
                       None \<Rightarrow> s
                     | Some rot \<Rightarrow> set_rotation_axis_angle cyl rot s)
            in (Some cyl, s)))"

text \<open>
  \<open>for i in range(len(path) - 1): seg = create_tube_segment(path[i], path[i+1], radius);
  if seg: segments.append(seg)\<close>. The result is the list \<open>segments\<close>.
\<close>

fun tube_segments :: "vec3 list \<Rightarrow> real \<Rightarrow> scene \<Rightarrow> nat list \<times> scene" where
  "tube_segments (p1 # p2 # path) radius s =
     (let (seg, s) = create_tube_segment p1 p2 radius s;
          (segments, s) = tube_segments (p2 # path) radius s
      in (case seg of None \<Rightarrow> (segments, s) | Some cyl \<Rightarrow> (cyl # segments, s)))"
| "tube_segments [p1] radius s = ([], s)"
| "tube_segments [] radius s = ([], s)"

text \<open>
  The end of the three functions: if there are segments, they are selected and joined
  into the first, which is named \<open>t-molding\<close> and returned; else \<open>None\<close>.
\<close>

definition join_segments :: "nat list \<Rightarrow> scene \<Rightarrow> nat option \<times> scene" where
  "join_segments segments s =
     (case segments of
        [] \<Rightarrow> (None, s)
      | first # _ \<Rightarrow>
          (let s = select_all_deselect s;
               s = fold select_set segments s;
               s = set_active first s;
               s = join s
           in (case active s of
                 None \<Rightarrow> (None, s)
               | Some ob \<Rightarrow> (Some ob, set_name ob ''t-molding'' s))))"

definition create_t_molding_cocktail :: "scene \<Rightarrow> nat option \<times> scene" where
  "create_t_molding_cocktail s =
     (let radius = 0.006;
          table_w = 0.70; table_d = 0.55; table_h = 0.70;
          hw = table_w / 2; hd = table_d / 2;
          path = [(hw, - hd, table_h), (hw, hd, table_h), (- hw, hd, table_h),
                  (- hw, - hd, table_h), (hw, - hd, table_h)];
          (segments, s) = tube_segments path radius s
      in join_segments segments s)"

definition create_t_molding_driving :: "scene \<Rightarrow> nat option \<times> scene" where
  "create_t_molding_driving s =
     (let radius = 0.008;
          path = [(-0.20, -0.50, 0.50), (-0.20, -0.50, 1.70), (-0.15, -0.50, 1.95),
                  (-0.15, 0.50, 1.95), (-0.20, 0.50, 1.70), (-0.20, 0.50, 0.50)];
          (segments, s) = tube_segments path radius s
      in join_segments segments s)"

definition create_t_molding_lightgun :: "scene \<Rightarrow> nat option \<times> scene" where
  "create_t_molding_lightgun s =
     (let radius = 0.008;
          path = [(-0.10, -0.40, 0.30), (-0.10, 0.40, 0.30), (-0.10, 0.40, 0.90),
                  (-0.15, 0.40, 1.00), (-0.15, -0.40, 1.00), (-0.10, -0.40, 0.90),
                  (-0.10, -0.40, 0.30)];
          path2 = [(-0.05, -0.40, 1.95), (-0.05, 0.40, 1.95), (-0.05, 0.40, 2.10),
                   (-0.05, -0.40, 2.10), (-0.05, -0.40, 1.95)];
          (segments1, s) = tube_segments path radius s;
          (segments2, s) = tube_segments path2 radius s
      in join_segments (segments1 @ segments2) s)"

section \<open>Parts\<close>

subsection \<open>Side panels\<close>

text \<open>
  Each builder is given in two parts: the mesh it builds with bmesh, which does not
  depend on the scene, and the object it creates from the mesh.
\<close>

definition profile_2d_cabinet :: "(real \<times> real) list" where
  "profile_2d_cabinet =
     [(0.0, 0.0), (0.0, 0.15), (-0.05, 0.20), (-0.05, 0.70), (-0.15, 0.85),
      (-0.15, 1.10), (-0.10, 1.20), (-0.05, 1.50), (-0.08, 1.65), (-0.10, 1.75),
      (-0.10, 1.90), (-0.05, 1.95), (-0.35, 1.95), (-0.40, 1.85), (-0.40, 0.0)]"

definition side_panel_mesh :: "bool \<Rightarrow> bm_error + mesh" where
  "side_panel_mesh is_right =
     (let profile_2d = profile_2d_cabinet;
          profile_2d = (if is_right then map (\<lambda>(x, y). (x, y)) profile_2d else profile_2d);
          thickness = 0.02
      in extrude_profile profile_2d
           (if is_right then thickness / 2 else - thickness / 2)
           (if is_right then - thickness / 2 else thickness / 2))"

definition create_side_panel :: "string \<Rightarrow> bool \<Rightarrow> scene \<Rightarrow> bm_error + (nat \<times> scene)" where
  "create_side_panel nm is_right s =
     bind_err (side_panel_mesh is_right) (\<lambda>m.
       let (ob, s) = objects_new nm m s;
           y_offset = (if is_right then 0.25 else -0.25);
           s = set_location ob (0, y_offset, 0) s
       in Inr (ob, s))"

definition profile_2d_driving :: "(real \<times> real) list" where
  "profile_2d_driving =
     [(0.0, 0.0), (0.0, 0.40), (-0.20, 0.50), (-0.30, 0.80), (-0.35, 1.10),
      (-0.30, 1.50), (-0.25, 1.70), (-0.20, 1.85), (-0.15, 1.95), (-0.80, 1.95),
      (-0.85, 1.80), (-0.85, 0.35), (-0.80, 0.0)]"

definition side_panel_mesh_driving :: "bool \<Rightarrow> bm_error + mesh" where
  "side_panel_mesh_driving is_right =
     (let profile_2d = profile_2d_driving;
          thickness = 0.02;
          y_offset = (if is_right then 0.50 else -0.50);
          y_back = (if is_right then y_offset - thickness else y_offset + thickness)
      in extrude_profile profile_2d y_offset y_back)"

definition create_side_panel_driving :: "string \<Rightarrow> bool \<Rightarrow> scene \<Rightarrow> bm_error + (nat \<times> scene)" where
  "create_side_panel_driving nm is_right s =
     bind_err (side_panel_mesh_driving is_right) (\<lambda>m. Inr (objects_new nm m s))"

definition profile_2d_lightgun :: "(real \<times> real) list" where
  "profile_2d_lightgun =
     [(0.0, 0.0), (0.0, 0.20), (-0.10, 0.30), (-0.10, 0.90), (-0.15, 1.00),
      (-0.12, 1.50), (-0.08, 1.80), (-0.05, 1.95), (-0.05, 2.10), (0.0, 2.15),
      (-0.50, 2.15), (-0.55, 2.00), (-0.55, 0.0)]"

definition side_panel_mesh_lightgun :: "bool \<Rightarrow> bm_error + mesh" where
  "side_panel_mesh_lightgun is_right =
     (let profile_2d = profile_2d_lightgun;
          thickness = 0.02;
          y_offset = (if is_right then thickness / 2 else - thickness / 2);
          y_back = (if is_right then - thickness / 2 else thickness / 2)
      in extrude_profile profile_2d y_offset y_back)"

definition create_side_panel_lightgun :: "string \<Rightarrow> bool \<Rightarrow> scene \<Rightarrow> bm_error + (nat \<times> scene)" where
  "create_side_panel_lightgun nm is_right s =
     bind_err (side_panel_mesh_lightgun is_right) (\<lambda>m.
       let (ob, s) = objects_new nm m s;
           y_pos = (if is_right then 0.40 else -0.40);
           s = set_location ob (0, y_pos, 0) s
       in Inr (ob, s))"

subsection \<open>Boxes and panels from host primitives\<close>

text \<open>
  \<open>create_flat_panel\<close> (Upright) and \<open>create_box\<close> (Cocktail, Driving, LightGun): a unit
  cube at the location, renamed. The dimensions only scale the cube.
\<close>

definition create_flat_panel ::
  "string \<Rightarrow> real \<Rightarrow> real \<Rightarrow> real \<Rightarrow> vec3 \<Rightarrow> scene \<Rightarrow> nat \<times> scene" where
  "create_flat_panel nm width height thickness loc s =
     (let (ob, s) = primitive_cube_add 1 loc s;
          s = set_name ob nm s
      in (ob, s))"

definition create_box :: "string \<Rightarrow> vec3 \<Rightarrow> vec3 \<Rightarrow> scene \<Rightarrow> nat \<times> scene" where
  "create_box nm dimensions loc s =
     (let (ob, s) = primitive_cube_add 1 loc s;
          s = set_name ob nm s
      in (ob, s))"

definition create_screen :: "scene \<Rightarrow> nat \<times> scene" where
  "create_screen s =
     (let (ob, s) = primitive_plane_add 1 (-0.06, 0, 1.35) s;
          s = set_name ob ''screen'' s
      in (ob, s))"

text \<open>The six faces of a box on the vertices \<open>v1 .. v8\<close>, as the control panel shell and
  the seat cushion list them.\<close>

definition box_faces :: "nat list list" where
  "box_faces = [[0, 1, 2, 3], [7, 6, 5, 4], [0, 4, 5, 1], [2, 6, 7, 3], [0, 3, 7, 4], [1, 5, 6, 2]]"

definition cp_shell_mesh :: "bm_error + mesh" where
  "cp_shell_mesh =
     (let cp_width = 0.50; cp_depth = 0.18; cp_front_z = 0.90; cp_back_z = 0.75;
          cp_thickness = 0.03;
          hw = cp_width / 2
      in build_faces
            [(-0.04, - hw, cp_front_z), (-0.04, hw, cp_front_z),
             (-0.04 - cp_depth, hw, cp_back_z), (-0.04 - cp_depth, - hw, cp_back_z),
             (-0.04, - hw, cp_front_z - cp_thickness), (-0.04, hw, cp_front_z - cp_thickness),
             (-0.04 - cp_depth, hw, cp_back_z - cp_thickness),
             (-0.04 - cp_depth, - hw, cp_back_z - cp_thickness)]
            box_faces)"

subsection \<open>Driving: steering wheel, pedals, gear shifter, seat\<close>

definition create_steering_wheel :: "string \<Rightarrow> vec3 \<Rightarrow> scene \<Rightarrow> nat \<times> scene" where
  "create_steering_wheel nm loc s =
     (let (wheel, s) = primitive_torus_add 0.15 0.015 loc s;
          (hub, s) = primitive_cylinder_add 0.04 0.03 loc s;
          (spokes, s) = fold (\<lambda>i (spokes, s).
                           let (spoke, s) = primitive_cube_add 1 loc s
                           in (spokes @ [spoke], s)) [0..<3] ([], s);
          s = select_all_deselect s;
          s = select_set wheel s;
          s = select_set hub s;
          s = fold select_set spokes s;
          s = set_active wheel s;
          s = join s;
          s = set_name wheel nm s
      in (wheel, s))"

definition create_pedals :: "nat \<Rightarrow> scene \<Rightarrow> (nat \<times> nat) \<times> scene" where
  "create_pedals parent_ob s =
     (let (gas, s) = create_box ''gas-pedal'' (0.08, 0.12, 0.02) (-0.05, 0.15, 0.05) s;
          s = set_parent gas parent_ob s;
          (brake, s) = create_box ''brake-pedal'' (0.10, 0.15, 0.02) (-0.05, -0.10, 0.05) s;
          s = set_parent brake parent_ob s
      in ((gas, brake), s))"

definition create_gear_shifter :: "string \<Rightarrow> vec3 \<Rightarrow> scene \<Rightarrow> nat \<times> scene" where
  "create_gear_shifter nm loc s =
     (let (base, s) = primitive_cylinder_add 0.025 0.03 loc s;
          shaft_loc = (vx loc, vy loc, vz loc + 0.08);
          (shaft, s) = primitive_cylinder_add 0.012 0.13 shaft_loc s;
          knob_loc = (vx loc, vy loc, vz loc + 0.15);
          (knob, s) = primitive_uv_sphere_add 0.025 knob_loc s;
          s = select_all_deselect s;
          s = select_set base s;
          s = select_set shaft s;
          s = select_set knob s;
          s = set_active base s;
          s = join s;
          s = set_name base nm s
      in (base, s))"

definition seat_mesh :: "bm_error + mesh" where
  "seat_mesh =
     (let seat_w = 0.40; seat_d = 0.40; seat_h = 0.08;
          sw = seat_w / 2; sd = seat_d / 2; sh = seat_h;
          (vs, bm) = verts_new_all bmesh_new
            [(- sw, - sd, 0), (sw, - sd, 0), (sw, sd, 0), (- sw, sd, 0),
             (- sw, - sd, sh), (sw, - sd, sh), (sw, sd, sh), (- sw, sd, sh)]
      in bind_err (faces_new_all bm (map (map (\<lambda>k. vs ! k)) box_faces)) (\<lambda>bm.
         let back_h = 0.50;
             (b, bm) = verts_new_all bm
               [(- sw, sd - 0.05, sh), (sw, sd - 0.05, sh), (sw, sd, sh), (- sw, sd, sh),
                (- sw * 0.9, sd - 0.08, sh + back_h), (sw * 0.9, sd - 0.08, sh + back_h),
                (sw * 0.9, sd - 0.02, sh + back_h), (- sw * 0.9, sd - 0.02, sh + back_h)]
         in bind_err (faces_new_all bm
              [[b ! 0, b ! 1, b ! 5, b ! 4],
               [b ! 2, b ! 3, b ! 7, b ! 6],
               [b ! 1, b ! 2, b ! 6, b ! 5],
               [b ! 3, b ! 0, b ! 4, b ! 7],
               [b ! 4, b ! 5, b ! 6, b ! 7]]) (\<lambda>bm. Inr (to_mesh bm))))"

definition create_seat :: "string \<Rightarrow> vec3 \<Rightarrow> scene \<Rightarrow> bm_error + (nat \<times> scene)" where
  "create_seat nm loc s =
     bind_err seat_mesh (\<lambda>m.
       let (ob, s) = objects_new nm m s;
           s = set_location ob loc s
       in Inr (ob, s))"

subsection \<open>LightGun: guns\<close>

definition create_gun :: "string \<Rightarrow> vec3 \<Rightarrow> scene \<Rightarrow> nat \<times> scene" where
  "create_gun nm loc s =
     (let (gun_body, s) = primitive_cube_add 1 loc s;
          (barrel, s) = primitive_cylinder_add 0.012 0.08 (vx loc, vy loc + 0.11, vz loc) s;
          (handle, s) = primitive_cube_add 1 (vx loc, vy loc - 0.02, vz loc - 0.05) s;
          s = select_all_deselect s;
          s = select_set gun_body s;
          s = select_set barrel s;
          s = select_set handle s;
          s = set_active gun_body s;
          s = join s;
          s = set_name gun_body nm s
      in (gun_body, s))"

section \<open>The four cabinets\<close>

subsection \<open>Upright\<close>

definition create_cabinet :: "scene \<Rightarrow> bm_error + (nat \<times> scene)" where
  "create_cabinet s0 =
     (let s = clear_scene s0;
          (root, s) = empty_add (0, 0, 0) s;
          s = set_name root ''cabinet-root'' s
      in bind_err (create_side_panel ''left'' False s) (\<lambda>(left, s).
         let s = set_parent left root s
         in bind_err (create_side_panel ''right'' True s) (\<lambda>(right, s).
         let s = set_parent right root s;
             (back, s) = create_flat_panel ''back'' 0.50 1.85 0.02 (-0.39, 0, 0.925) s;
             s = set_parent back root s;
             (top, s) = primitive_cube_add 1 (-0.22, 0, 1.94) s;
             s = set_name top ''top'' s;
             s = set_parent top root s;
             (bottom, s) = primitive_cube_add 1 (-0.20, 0, 0.01) s;
             s = set_name bottom ''bottom'' s;
             s = set_parent bottom root s;
             (front_kick, s) = create_flat_panel ''front-kick'' 0.50 0.18 0.02 (-0.04, 0, 0.09) s;
             s = set_parent front_kick root s;
             (marquee_box, s) = create_flat_panel ''marquee-box'' 0.50 0.12 0.10 (-0.12, 0, 1.82) s;
             s = set_parent marquee_box root s;
             (marquee, s) = primitive_plane_add 1 (-0.06, 0, 1.82) s;
             s = set_name marquee ''marquee'' s;
             s = set_parent marquee root s
         in bind_err (create_bezel_with_cutout_cabinet s) (\<lambda>(bezel, s).
         let s = set_parent bezel root s;
             (screen, s) = create_screen s;
             s = set_parent screen root s
         in bind_err cp_shell_mesh (\<lambda>m.
         let (cp_shell, s) = objects_new ''cp-shell'' m s;
             s = set_parent cp_shell root s;
             (joystick, s) = primitive_plane_add 1 (-0.08, 0, 0.85) s;
             s = set_name joystick ''joystick'' s;
             s = set_parent joystick root s;
             (coin_door, s) = create_flat_panel ''coin-door'' 0.20 0.15 0.02 (-0.04, 0, 0.35) s;
             s = set_parent coin_door root s;
             (speaker, s) = create_flat_panel ''speaker'' 0.50 0.08 0.02 (-0.04, 0, 0.55) s;
             s = set_parent speaker root s
         in bind_err (create_t_molding s) (\<lambda>(t_molding, s).
         let s = set_parent t_molding root s;
             (screen_mock_v, s) = primitive_cube_add 0.01 (-0.06, 0, 1.35) s;
             s = set_name screen_mock_v ''screen-mock-vertical'' s;
             s = set_parent screen_mock_v root s;
             (screen_mock_h, s) = primitive_cube_add 0.01 (-0.06, 0, 1.35) s;
             s = set_name screen_mock_h ''screen-mock-horizontal'' s;
             s = set_parent screen_mock_h root s
         in Inr (root, s)))))))"

subsection \<open>Cocktail\<close>

text \<open>\<open>str(n)\<close> for the leg names \<open>f"leg-{i+1}"\<close>.\<close>

fun str_nat :: "nat \<Rightarrow> string" where
  "str_nat n =
     (if n < 10 then [''0123456789'' ! n]
      else str_nat (n div 10) @ [''0123456789'' ! (n mod 10)])"

definition create_cocktail_cabinet :: "scene \<Rightarrow> bm_error + (nat \<times> scene)" where
  "create_cocktail_cabinet s0 =
     (let s = clear_scene s0;
          table_width = 0.70; table_depth = 0.55; table_height = 0.70;
          leg_height = 0.60; panel_thickness = 0.02;
          (root, s) = empty_add (0, 0, 0) s;
          s = set_name root ''cabinet-root'' s
      in bind_err (create_bezel_with_cutout_cocktail ''bezel'' table_width table_depth 0.45 0.35 0.01 s)
           (\<lambda>(bezel, s).
         let s = set_location bezel (0, 0, table_height + 0.005) s;
             s = set_parent bezel root s;
             (screen, s) = primitive_plane_add 1 (0, 0, table_height - 0.01) s;
             s = set_name screen ''screen'' s;
             s = set_parent screen root s;
             (screen_mock_h, s) = primitive_cube_add 0.01 (0, 0, table_height - 0.01) s;
             s = set_name screen_mock_h ''screen-mock-horizontal'' s;
             s = set_parent screen_mock_h root s;
             (screen_mock_v, s) = primitive_cube_add 0.01 (0, 0, table_height - 0.01) s;
             s = set_name screen_mock_v ''screen-mock-vertical'' s;
             s = set_parent screen_mock_v root s;
             (left, s) = create_box ''left'' (panel_thickness, table_depth, table_height - leg_height)
                           (- table_width / 2, 0, (table_height + leg_height) / 2) s;
             s = set_parent left root s;
             (right, s) = create_box ''right'' (panel_thickness, table_depth, table_height - leg_height)
                            (table_width / 2, 0, (table_height + leg_height) / 2) s;
             s = set_parent right root s;
             (back, s) = create_box ''back'' (table_width, panel_thickness, table_height - leg_height)
                           (0, table_depth / 2, (table_height + leg_height) / 2) s;
             s = set_parent back root s;
             (front, s) = create_box ''front''
                            (table_width, panel_thickness, table_height - leg_height - 0.12)
                            (0, - table_depth / 2, (table_height + leg_height) / 2 + 0.06) s;
             s = set_parent front root s;
             (top, s) = create_box ''top'' (table_width - 0.02, table_depth - 0.02, panel_thickness)
                          (0, 0, table_height - 0.015) s;
             s = set_parent top root s;
             (bottom, s) = create_box ''bottom'' (table_width - 0.04, table_depth - 0.04, panel_thickness)
                             (0, 0, leg_height + 0.01) s;
             s = set_parent bottom root s;
             (joystick, s) = primitive_plane_add 1 (0, - table_depth / 2 + 0.06, table_height - 0.05) s;
             s = set_name joystick ''joystick'' s;
             s = set_parent joystick root s;
             (joystick2, s) = primitive_plane_add 1 (0, table_depth / 2 - 0.06, table_height - 0.05) s;
             s = set_name joystick2 ''joystick-2'' s;
             s = set_parent joystick2 root s;
             (marquee, s) = primitive_plane_add 1 (table_width / 2 + 0.005, 0, table_height - 0.05) s;
             s = set_name marquee ''marquee'' s;
             s = set_parent marquee root s;
             (coin_door, s) = create_box ''coin-door'' (0.08, panel_thickness + 0.005, 0.06)
                                (0.15, - table_depth / 2 - 0.002, leg_height + 0.10) s;
             s = set_parent coin_door root s;
             leg_positions =
               [(table_width / 2 - 0.03, table_depth / 2 - 0.03),
                (- table_width / 2 + 0.03, table_depth / 2 - 0.03),
                (table_width / 2 - 0.03, - table_depth / 2 + 0.03),
                (- table_width / 2 + 0.03, - table_depth / 2 + 0.03)];
             s = fold (\<lambda>(i, (x, y)) s.
                         let (leg, s) = create_box (''leg-'' @ str_nat (i + 1)) (0.04, 0.04, leg_height)
                                          (x, y, leg_height / 2) s
                         in set_parent leg root s)
                      (enumerate 0 leg_positions) s;
             (t_molding, s) = create_t_molding_cocktail s;
             s = (case t_molding of None \<Rightarrow> s | Some t \<Rightarrow> set_parent t root s);
             (speaker, s) = create_box ''speaker'' (0.15, panel_thickness, 0.08)
                              (0, - table_depth / 2, leg_height + 0.06) s;
             s = set_parent speaker root s
         in Inr (root, s)))"

subsection \<open>Driving\<close>

definition create_driving_cabinet :: "scene \<Rightarrow> bm_error + (nat \<times> scene)" where
  "create_driving_cabinet s0 =
     (let s = clear_scene s0;
          (root, s) = empty_add (0, 0, 0) s;
          s = set_name root ''cabinet-root'' s
      in bind_err (create_side_panel_driving ''left'' False s) (\<lambda>(left, s).
         let s = set_parent left root s
         in bind_err (create_side_panel_driving ''right'' True s) (\<lambda>(right, s).
         let s = set_parent right root s;
             (back, s) = create_box ''back'' (0.02, 0.98, 1.60) (-0.84, 0, 0.90) s;
             s = set_parent back root s;
             (top, s) = create_box ''top'' (0.70, 0.98, 0.02) (-0.47, 0, 1.94) s;
             s = set_parent top root s;
             (bottom, s) = create_box ''bottom'' (0.85, 0.98, 0.02) (-0.42, 0, 0.01) s;
             s = set_parent bottom root s;
             (dashboard, s) = create_box ''dashboard'' (0.25, 0.70, 0.02) (-0.27, 0, 0.72) s;
             s = set_parent dashboard root s;
             (marquee, s) = primitive_plane_add 1 (-0.17, 0, 1.90) s;
             s = set_name marquee ''marquee'' s;
             s = set_parent marquee root s;
             (marquee_box, s) = create_box ''marquee-box'' (0.12, 0.98, 0.15) (-0.19, 0, 1.87) s;
             s = set_parent marquee_box root s
         in bind_err (create_bezel_with_cutout_driving ''bezel'' 0.90 0.55 0.75 0.45 0.02 s)
              (\<lambda>(bezel, s).
         let s = set_location bezel (-0.32, 0, 1.30) s;
             s = set_parent bezel root s;
             (screen, s) = primitive_plane_add 1 (-0.31, 0, 1.30) s;
             s = set_name screen ''screen'' s;
             s = set_parent screen root s;
             (screen_mock_h, s) = primitive_cube_add 0.01 (-0.31, 0, 1.30) s;
             s = set_name screen_mock_h ''screen-mock-horizontal'' s;
             s = set_parent screen_mock_h root s;
             (screen_mock_v, s) = primitive_cube_add 0.01 (-0.31, 0, 1.30) s;
             s = set_name screen_mock_v ''screen-mock-vertical'' s;
             s = set_parent screen_mock_v root s;
             (wheel, s) = create_steering_wheel ''steering-wheel'' (-0.15, 0, 0.85) s;
             s = set_parent wheel root s;
             (column, s) = create_box ''steering-column'' (0.08, 0.10, 0.25) (-0.20, 0, 0.70) s;
             s = set_parent column root s;
             (pedals, s) = create_pedals root s;
             (shifter, s) = create_gear_shifter ''gear-shifter'' (-0.25, 0.25, 0.55) s;
             s = set_parent shifter root s
         in bind_err (create_seat ''seat'' (-0.55, 0, 0.30) s) (\<lambda>(seat, s).
         let s = set_parent seat root s;
             (coin_door, s) = create_box ''coin-door'' (0.02, 0.15, 0.10) (-0.05, 0.30, 0.35) s;
             s = set_parent coin_door root s;
             (speaker, s) = create_box ''speaker'' (0.02, 0.30, 0.08) (-0.22, 0, 1.65) s;
             s = set_parent speaker root s;
             (front_kick, s) = create_box ''front-kick'' (0.15, 0.60, 0.02) (-0.07, 0, 0.25) s;
             s = set_parent front_kick root s;
             (t_molding, s) = create_t_molding_driving s;
             s = (case t_molding of None \<Rightarrow> s | Some t \<Rightarrow> set_parent t root s)
         in Inr (root, s))))))"

subsection \<open>LightGun\<close>

definition create_lightgun_cabinet :: "scene \<Rightarrow> bm_error + (nat \<times> scene)" where
  "create_lightgun_cabinet s0 =
     (let s = clear_scene s0;
          (root, s) = empty_add (0, 0, 0) s;
          s = set_name root ''cabinet-root'' s
      in bind_err (create_side_panel_lightgun ''left'' False s) (\<lambda>(left, s).
         let s = set_parent left root s
         in bind_err (create_side_panel_lightgun ''right'' True s) (\<lambda>(right, s).
         let s = set_parent right root s;
             (back, s) = create_box ''back'' (0.02, 0.78, 2.00) (-0.54, 0, 1.00) s;
             s = set_parent back root s;
             (top, s) = create_box ''top'' (0.50, 0.78, 0.02) (-0.27, 0, 2.14) s;
             s = set_parent top root s;
             (bottom, s) = create_box ''bottom'' (0.55, 0.78, 0.02) (-0.27, 0, 0.01) s;
             s = set_parent bottom root s;
             (front, s) = create_box ''front'' (0.02, 0.78, 0.50) (-0.14, 0, 1.25) s;
             s = set_parent front root s;
             (front_lower, s) = create_box ''front-lower'' (0.02, 0.78, 0.55) (-0.09, 0, 0.60) s;
             s = set_parent front_lower root s;
             (marquee, s) = primitive_plane_add 1 (-0.04, 0, 2.02) s;
             s = set_name marquee ''marquee'' s;
             s = set_parent marquee root s;
             (marquee_box, s) = create_box ''marquee-box'' (0.10, 0.78, 0.15) (-0.08, 0, 2.02) s;
             s = set_parent marquee_box root s
         in bind_err (create_bezel_with_cutout_lightgun ''bezel'' 0.75 0.55 0.60 0.42 0.015 s)
              (\<lambda>(bezel, s).
         let s = set_location bezel (-0.13, 0, 1.25) s;
             s = set_parent bezel root s;
             (screen, s) = primitive_plane_add 1 (-0.12, 0, 1.25) s;
             s = set_name screen ''screen'' s;
             s = set_parent screen root s;
             (screen_mock_h, s) = primitive_cube_add 0.01 (-0.12, 0, 1.25) s;
             s = set_name screen_mock_h ''screen-mock-horizontal'' s;
             s = set_parent screen_mock_h root s;
             (screen_mock_v, s) = primitive_cube_add 0.01 (-0.12, 0, 1.25) s;
             s = set_name screen_mock_v ''screen-mock-vertical'' s;
             s = set_parent screen_mock_v root s;
             (gun, s) = create_gun ''gun'' (-0.08, -0.18, 0.85) s;
             s = set_parent gun root s;
             (gun2, s) = create_gun ''gun2'' (-0.08, 0.18, 0.85) s;
             s = set_parent gun2 root s;
             (gun_shelf, s) = create_box ''gun-shelf'' (0.12, 0.78, 0.02) (-0.10, 0, 0.90) s;
             s = set_parent gun_shelf root s;
             (coin_door, s) = create_box ''coin-door'' (0.02, 0.15, 0.12) (-0.08, 0, 0.25) s;
             s = set_parent coin_door root s;
             (speaker, s) = create_box ''speaker'' (0.02, 0.40, 0.08) (-0.08, 0, 1.85) s;
             s = set_parent speaker root s;
             (pedal, s) = create_box ''pedal'' (0.15, 0.25, 0.03) (0.15, 0, 0.015) s;
             s = set_parent pedal root s;
             (t_molding, s) = create_t_molding_lightgun s;
             s = (case t_molding of None \<Rightarrow> s | Some t \<Rightarrow> set_parent t root s)
         in Inr (root, s)))))"

text \<open>The variant chosen for a run, and its build.\<close>

datatype variant = Upright | Cocktail | Driving | LightGun

fun build_variant :: "variant \<Rightarrow> scene \<Rightarrow> bm_error + (nat \<times> scene)" where
  "build_variant Upright s = create_cabinet s"
| "build_variant Cocktail s = create_cocktail_cabinet s"
| "build_variant Driving s = create_driving_cabinet s"
| "build_variant LightGun s = create_lightgun_cabinet s"

section \<open>Notions the properties are stated with\<close>

text \<open>What a consumer of the scene sees of a node: identity, name and parent.\<close>

definition nodes :: "scene \<Rightarrow> (nat \<times> string \<times> nat option) list" where
  "nodes s = map (\<lambda>ob. (oid ob, name ob, parent ob)) (objects s)"

definition node_names :: "scene \<Rightarrow> string list" where
  "node_names s = map (\<lambda>(i, nm, p). nm) (nodes s)"

text \<open>
  \<open>chain_reaches ns r fuel i\<close>: following parent links from node \<open>i\<close> arrives at \<open>r\<close>
  within \<open>fuel\<close> steps. A chain without a cycle has fewer links than there are nodes.
\<close>

fun chain_reaches :: "(nat \<times> string \<times> nat option) list \<Rightarrow> nat \<Rightarrow> nat \<Rightarrow> nat \<Rightarrow> bool" where
  "chain_reaches ns r 0 i = (i = r)"
| "chain_reaches ns r (Suc fuel) i =
     (i = r \<or>
      (case find (\<lambda>(k, nm, p). k = i) ns of
         None \<Rightarrow> False
       | Some (k, nm, None) \<Rightarrow> False
       | Some (k, nm, Some p) \<Rightarrow> chain_reaches ns r fuel p))"

text \<open>
  One node is named \<open>cabinet-root\<close>, it is \<open>r\<close> and has no parent; the parent chain of
  every node ends at \<open>r\<close>.
\<close>

definition single_rooted :: "nat \<Rightarrow> scene \<Rightarrow> bool" where
  "single_rooted r s =
     (filter (\<lambda>(i, nm, p). nm = ''cabinet-root'') (nodes s) = [(r, ''cabinet-root'', None)] \<and>
      list_all (\<lambda>(i, nm, p). chain_reaches (nodes s) r (length (nodes s)) i) (nodes s))"

definition required_names :: "string list" where
  "required_names =
     [''left'', ''right'', ''back'', ''top'', ''bottom'', ''bezel'', ''screen'',
      ''screen-mock-horizontal'', ''screen-mock-vertical'', ''marquee'', ''coin-door'',
      ''speaker'', ''t-molding'']"

text \<open>\<open>contains sub str\<close>: \<open>sub in str\<close> on Python strings.\<close>

fun starts_with :: "string \<Rightarrow> string \<Rightarrow> bool" where
  "starts_with [] str = True"
| "starts_with (c # sub) [] = False"
| "starts_with (c # sub) (d # str) = (c = d \<and> starts_with sub str)"

fun contains :: "string \<Rightarrow> string \<Rightarrow> bool" where
  "contains sub [] = (sub = [])"
| "contains sub (d # str) = (starts_with sub (d # str) \<or> contains sub str)"

text \<open>
  The normal of a face by the right-hand rule on its winding: the cross product of its
  first two edges. The centre of a face is the mean of its corners, the centroid of a
  profile the mean of its points, taken in the plane midway between the two rings. A face
  points away from a point when its normal has a positive component along the line from
  the point to the centre of the face.
\<close>

definition face_normal :: "mesh \<Rightarrow> nat list \<Rightarrow> vec3" where
  "face_normal m f =
     cross (vsub (vertices m ! (f ! 1)) (vertices m ! (f ! 0)))
           (vsub (vertices m ! (f ! 2)) (vertices m ! (f ! 1)))"

definition mean_point :: "vec3 list \<Rightarrow> vec3" where
  "mean_point ps = vscale (foldr vadd ps (0, 0, 0)) (1 / real (length ps))"

definition face_centre :: "mesh \<Rightarrow> nat list \<Rightarrow> vec3" where
  "face_centre m f = mean_point (map (\<lambda>k. vertices m ! k) f)"

definition profile_centroid :: "(real \<times> real) list \<Rightarrow> real \<Rightarrow> real \<Rightarrow> vec3" where
  "profile_centroid profile_2d y_front y_back =
     mean_point (map (\<lambda>(x, z). (x, (y_front + y_back) / 2, z)) profile_2d)"

definition points_away_from :: "mesh \<Rightarrow> nat list \<Rightarrow> vec3 \<Rightarrow> bool" where
  "points_away_from m f c = (dot (face_normal m f) (vsub (face_centre m f) c) > 0)"

text \<open>Every face of a bmesh refers to vertices the bmesh has.\<close>

definition bm_wf :: "bmesh \<Rightarrow> bool" where
  "bm_wf bm = list_all (\<lambda>f. list_all (\<lambda>v. v < length (bm_verts bm)) f) (bm_faces bm)"

text \<open>Every two consecutive waypoints of a path are at least 0.001 apart.\<close>

definition well_separated :: "vec3 list \<Rightarrow> bool" where
  "well_separated path = list_all (\<lambda>(p1, p2). \<not> vlength (vsub p2 p1) < 0.001) (zip path (tl path))"

text \<open>The scene after an add operator and after \<open>objects.new\<close>, without the identity
  of the new object.\<close>

definition add_state :: "string \<Rightarrow> part list \<Rightarrow> vec3 \<Rightarrow> scene \<Rightarrow> scene" where
  "add_state nm g loc s = snd (add_operator nm g loc s)"

definition new_state :: "string \<Rightarrow> mesh \<Rightarrow> scene \<Rightarrow> scene" where
  "new_state nm m s = snd (objects_new nm m s)"

text \<open>The side quad of edge \<open>i\<close> of a ring of \<open>n\<close> vertices whose back ring follows the
  front ring in the vertex list.\<close>

definition ring_quad :: "nat \<Rightarrow> nat \<Rightarrow> nat list" where
  "ring_quad n i = [i, (i + 1) mod n, n + (i + 1) mod n, n + i]"

section \<open>Facts about the bmesh accumulator\<close>

lemma bind_err_weak_cong [cong]: "m = m' \<Longrightarrow> bind_err m f = bind_err m' f"
  by simp

lemma verts_new_all_eq:
  "verts_new_all bm cs =
     ([length (bm_verts bm) ..< length (bm_verts bm) + length cs],
      bm\<lparr>bm_verts := bm_verts bm @ cs\<rparr>)"
proof (induction cs arbitrary: bm)
  case Nil
  show ?case by simp
next
  case (Cons co cs)
  have "[length (bm_verts bm)..<length (bm_verts bm) + length (co # cs)] =
      length (bm_verts bm) # [Suc (length (bm_verts bm))..<Suc (length (bm_verts bm)) + length cs]"
    by (subst upt_rec) simp
  then show ?case
    by (simp add: Cons.IH verts_new_def)
qed

lemma succ_mod: "i < n \<Longrightarrow> Suc i mod n = (if Suc i < n then Suc i else 0)"
proof (cases "Suc i = n")
  case True
  then show ?thesis by simp
next
  case False
  assume "i < n"
  with False have "Suc i < n" by simp
  then show ?thesis by simp
qed

section \<open>The extrusion in closed form\<close>

lemma side_quad_upt:
  "i < n \<Longrightarrow> side_quad [0..<n] [n..<n + n] n i = ring_quad n i"
  by (simp add: side_quad_def ring_quad_def Let_def)

lemma ring_quad_distinct: "i < n \<Longrightarrow> 2 \<le> n \<Longrightarrow> distinct (ring_quad n i)"
  by (auto simp: ring_quad_def succ_mod)

lemma ring_quad_not_front: "i < n \<Longrightarrow> \<not> set (ring_quad n i) \<subseteq> set [0..<n]"
  by (simp add: ring_quad_def)

lemma ring_quad_not_back: "i < n \<Longrightarrow> \<not> set (ring_quad n i) \<subseteq> set (rev [n..<n + n])"
  by (simp add: ring_quad_def)

lemma ring_quad_not_other:
  "i < n \<Longrightarrow> k < n \<Longrightarrow> i \<noteq> k \<Longrightarrow> 3 \<le> n \<Longrightarrow> \<not> set (ring_quad n i) \<subseteq> set (ring_quad n k)"
  by (auto simp: ring_quad_def succ_mod split: if_splits)

text \<open>The loop over the side quads never meets an existing face, once there are three
  points: the quads done so far are those of the indices \<open>ds\<close>.\<close>

lemma side_faces_upt:
  assumes n: "3 \<le> n"
  shows "set ks \<subseteq> {..<n} \<Longrightarrow> distinct ks \<Longrightarrow> set ds \<subseteq> {..<n} \<Longrightarrow> set ds \<inter> set ks = {} \<Longrightarrow>
     bm_faces bm = [0..<n] # rev [n..<n + n] # map (ring_quad n) ds \<Longrightarrow>
     side_faces [0..<n] [n..<n + n] n ks bm =
       Inr (bm\<lparr>bm_faces := bm_faces bm @ map (ring_quad n) ks\<rparr>)"
proof (induction ks arbitrary: bm ds)
  case Nil
  show ?case by simp
next
  case (Cons i ks)
  have i: "i < n" using Cons.prems(1) by simp
  have new: "\<not> face_exists bm (ring_quad n i)"
  proof -
    have "\<not> set (ring_quad n i) \<subseteq> set (ring_quad n k)" if "k \<in> set ds" for k
    proof -
      have "k < n" "i \<noteq> k" using that Cons.prems(3,4) by auto
      then show ?thesis using ring_quad_not_other [OF i _ _ n] by blast
    qed
    then show ?thesis
      using ring_quad_not_front [OF i] ring_quad_not_back [OF i]
      by (auto simp: face_exists_def Cons.prems(5) list_ex_iff)
  qed
  have step: "faces_new bm (side_quad [0..<n] [n..<n + n] n i) =
      Inr (bm\<lparr>bm_faces := bm_faces bm @ [ring_quad n i]\<rparr>)"
    using new ring_quad_distinct [OF i] n
    by (simp add: faces_new_def side_quad_upt [OF i]) (simp add: ring_quad_def)
  have rest: "side_faces [0..<n] [n..<n + n] n ks (bm\<lparr>bm_faces := bm_faces bm @ [ring_quad n i]\<rparr>) =
      Inr (bm\<lparr>bm_faces := bm_faces bm @ [ring_quad n i]\<rparr>
             \<lparr>bm_faces := bm_faces (bm\<lparr>bm_faces := bm_faces bm @ [ring_quad n i]\<rparr>) @ map (ring_quad n) ks\<rparr>)"
    using Cons.prems by (intro Cons.IH [where ds = "ds @ [i]"]) auto
  show ?case by (simp add: step rest)
qed

lemma extrude_profile_eq:
  assumes "3 \<le> length profile_2d"
  shows "extrude_profile profile_2d y_front y_back =
     Inr \<lparr>vertices = map (\<lambda>(x, z). (x, y_front, z)) profile_2d @ map (\<lambda>(x, z). (x, y_back, z)) profile_2d,
          polygons = [0..<length profile_2d] # rev [length profile_2d..<length profile_2d + length profile_2d]
             # map (ring_quad (length profile_2d)) [0..<length profile_2d]\<rparr>"
proof -
  let ?n = "length profile_2d"
  let ?vs = "map (\<lambda>(x, z). (x, y_front, z)) profile_2d @ map (\<lambda>(x, z). (x, y_back, z)) profile_2d"
  have f1: "faces_new \<lparr>bm_verts = ?vs, bm_faces = []\<rparr> [0..<?n] = Inr \<lparr>bm_verts = ?vs, bm_faces = [[0..<?n]]\<rparr>"
    using assms by (simp add: faces_new_def face_exists_def)
  have f2: "faces_new \<lparr>bm_verts = ?vs, bm_faces = [[0..<?n]]\<rparr> (rev [?n..<?n + ?n]) =
      Inr \<lparr>bm_verts = ?vs, bm_faces = [[0..<?n], rev [?n..<?n + ?n]]\<rparr>"
    using assms by (auto simp: faces_new_def face_exists_def)
  have f3: "side_faces [0..<?n] [?n..<?n + ?n] ?n [0..<?n] \<lparr>bm_verts = ?vs, bm_faces = [[0..<?n], rev [?n..<?n + ?n]]\<rparr> =
      Inr \<lparr>bm_verts = ?vs, bm_faces = [0..<?n] # rev [?n..<?n + ?n] # map (ring_quad ?n) [0..<?n]\<rparr>"
    using side_faces_upt [OF assms, of "[0..<?n]" "[]" "\<lparr>bm_verts = ?vs, bm_faces = [[0..<?n], rev [?n..<?n + ?n]]\<rparr>"]
    by (simp add: subset_iff)
  show ?thesis
    by (simp add: extrude_profile_def bmesh_new_def verts_new_all_eq f1 f2 f3 to_mesh_def Let_def)
qed

text \<open>With fewer than three points the front face is refused.\<close>

lemma extrude_profile_too_few:
  "length profile_2d < 3 \<Longrightarrow> extrude_profile profile_2d y_front y_back = Inl FaceTooFewVerts"
  by (simp add: extrude_profile_def bmesh_new_def verts_new_all_eq faces_new_def Let_def)

section \<open>Profile extrusion: counts\<close>

text \<open>
  Claim C3. For a profile of \<open>n \<ge> 3\<close> points the extrusion returns a mesh (it does not
  raise) with exactly \<open>2n\<close> vertices and \<open>n + 2\<close> faces: the front n-gon, the back n-gon
  and \<open>n\<close> side quads, in this order. This holds for every pair of ring offsets, so for
  every thickness \<open>t > 0\<close> of the three side-panel builders.
\<close>

theorem extrude_profile_counts:
  assumes "3 \<le> length profile_2d"
  shows "\<exists>m. extrude_profile profile_2d y_front y_back = Inr m \<and>
           length (vertices m) = 2 * length profile_2d \<and>
           length (polygons m) = length profile_2d + 2 \<and>
           map length (polygons m) =
             length profile_2d # length profile_2d # replicate (length profile_2d) 4"
proof -
  have "length \<circ> ring_quad (length profile_2d) = (\<lambda>i. 4)"
    by (simp add: fun_eq_iff ring_quad_def)
  then have "map length (map (ring_quad (length profile_2d)) [0..<length profile_2d]) =
      replicate (length profile_2d) 4"
    by (simp add: map_replicate_const)
  then show ?thesis
    by (simp add: extrude_profile_eq [OF assms])
qed

theorem extrude_profile_counts_witness:
  "\<exists>m. extrude_profile profile_2d_cabinet (-0.01) 0.01 = Inr m \<and>
       length (vertices m) = 30 \<and> length (polygons m) = 17 \<and>
       map length (polygons m) = 15 # 15 # replicate 15 4"
proof -
  have n: "3 \<le> length profile_2d_cabinet" by (simp add: profile_2d_cabinet_def)
  have l: "length profile_2d_cabinet = 15" by (simp add: profile_2d_cabinet_def)
  show ?thesis
    using extrude_profile_counts [OF n, of "-0.01" "0.01"] unfolding l by simp
qed

section \<open>The side panels of the Upright cabinet\<close>

lemma profile_2d_cabinet_length: "length profile_2d_cabinet = 15"
  by (simp add: profile_2d_cabinet_def)

lemma side_panel_mesh_eq:
  "side_panel_mesh is_right =
     Inr \<lparr>vertices =
            map (\<lambda>(x, z). (x, if is_right then 0.01 else -0.01, z)) profile_2d_cabinet @
            map (\<lambda>(x, z). (x, if is_right then -0.01 else 0.01, z)) profile_2d_cabinet,
          polygons = [0..<15] # rev [15..<30] # map (ring_quad 15) [0..<15]\<rparr>"
proof -
  have id: "map (\<lambda>(x, y). (x, y)) profile_2d_cabinet = profile_2d_cabinet"
    by simp
  have n: "3 \<le> length profile_2d_cabinet"
    by (simp add: profile_2d_cabinet_length)
  show ?thesis
    unfolding side_panel_mesh_def Let_def id if_cancel extrude_profile_eq [OF n] profile_2d_cabinet_length
    by simp
qed

text \<open>
  Claim C10. In the Upright variant \<open>is_right\<close> does not mirror the profile. Both rings of
  both panels are built from the fifteen coordinates of \<open>profile_2d\<close>; the flag decides
  which ring lies at \<open>+thickness/2 = 0.01\<close> and which at \<open>-0.01\<close>, and the sign of the y
  location of the node (\<open>0.25\<close> for the right panel, \<open>-0.25\<close> for the left). The two meshes
  have the same faces and the same multiset of vertex positions.
\<close>

theorem side_panel_is_right_swaps_rings:
  "\<exists>mL mR sL sR obL obR.
     side_panel_mesh False = Inr mL \<and> side_panel_mesh True = Inr mR \<and>
     map (\<lambda>(x, y, z). (x, z)) (take 15 (vertices mL)) = profile_2d_cabinet \<and>
     map (\<lambda>(x, y, z). (x, z)) (drop 15 (vertices mL)) = profile_2d_cabinet \<and>
     map (\<lambda>(x, y, z). (x, z)) (take 15 (vertices mR)) = profile_2d_cabinet \<and>
     map (\<lambda>(x, y, z). (x, z)) (drop 15 (vertices mR)) = profile_2d_cabinet \<and>
     map vy (take 15 (vertices mL)) = replicate 15 (-0.01) \<and>
     map vy (drop 15 (vertices mL)) = replicate 15 0.01 \<and>
     map vy (take 15 (vertices mR)) = replicate 15 0.01 \<and>
     map vy (drop 15 (vertices mR)) = replicate 15 (-0.01) \<and>
     take 15 (vertices mL) = drop 15 (vertices mR) \<and>
     drop 15 (vertices mL) = take 15 (vertices mR) \<and>
     mset (vertices mL) = mset (vertices mR) \<and>
     polygons mL = polygons mR \<and>
     create_side_panel ''left'' False s = Inr (obL, sL) \<and>
     create_side_panel ''right'' True s = Inr (obR, sR) \<and>
     location (last (objects sL)) = (0, -0.25, 0) \<and> geometry (last (objects sL)) = [Built mL] \<and>
     location (last (objects sR)) = (0, 0.25, 0) \<and> geometry (last (objects sR)) = [Built mR]"
proof -
  define F where "F = map (\<lambda>(x, z). (x, -0.01 :: real, z)) profile_2d_cabinet"
  define B where "B = map (\<lambda>(x, z). (x, 0.01 :: real, z)) profile_2d_cabinet"
  define P where "P = [0..<15] # rev [15..<30] # map (ring_quad 15) [0..<15]"
  define mL where "mL = \<lparr>vertices = F @ B, polygons = P\<rparr>"
  define mR where "mR = \<lparr>vertices = B @ F, polygons = P\<rparr>"
  define sL where "sL = set_location (next_oid s) (0, -0.25, 0) (snd (objects_new ''left'' mL s))"
  define sR where "sR = set_location (next_oid s) (0, 0.25, 0) (snd (objects_new ''right'' mR s))"
  have L: "side_panel_mesh False = Inr mL"
    by (simp add: side_panel_mesh_eq mL_def F_def B_def P_def)
  have R: "side_panel_mesh True = Inr mR"
    by (simp add: side_panel_mesh_eq mR_def F_def B_def P_def)
  have len: "length F = 15" "length B = 15"
    by (simp_all add: F_def B_def profile_2d_cabinet_length)
  have tk: "take 15 (F @ B) = F" "drop 15 (F @ B) = B" "take 15 (B @ F) = B" "drop 15 (B @ F) = F"
    by (simp_all add: len)
  have xz: "map (\<lambda>(x, y, z). (x, z)) F = profile_2d_cabinet"
      "map (\<lambda>(x, y, z). (x, z)) B = profile_2d_cabinet"
    by (simp_all add: F_def B_def profile_2d_cabinet_def)
  have ys: "map vy F = replicate 15 (-0.01)" "map vy B = replicate 15 0.01"
    by (simp_all add: F_def B_def profile_2d_cabinet_def numeral_eq_Suc)
  have objL: "create_side_panel ''left'' False s = Inr (next_oid s, sL)"
    by (simp add: create_side_panel_def L objects_new_def Let_def sL_def)
  have objR: "create_side_panel ''right'' True s = Inr (next_oid s, sR)"
    by (simp add: create_side_panel_def R objects_new_def Let_def sR_def)
  have lastL: "location (last (objects sL)) = (0, -0.25, 0)" "geometry (last (objects sL)) = [Built mL]"
    by (simp_all add: sL_def set_location_def update_obj_def objects_new_def Let_def)
  have lastR: "location (last (objects sR)) = (0, 0.25, 0)" "geometry (last (objects sR)) = [Built mR]"
    by (simp_all add: sR_def set_location_def update_obj_def objects_new_def Let_def)
  have vs: "vertices mL = F @ B" "vertices mR = B @ F" "polygons mL = polygons mR"
    by (simp_all add: mL_def mR_def)
  have ms: "mset (F @ B) = mset (B @ F)"
    by (simp add: ac_simps)
  show ?thesis
    by (rule exI [of _ mL], rule exI [of _ mR], rule exI [of _ sL], rule exI [of _ sR],
        rule exI [of _ "next_oid s"], rule exI [of _ "next_oid s"])
       (simp only: L R objL objR lastL lastR ms vs tk xz ys simp_thms)
qed

section \<open>Side-quad normals\<close>

lemma extrude_profile_quad:
  assumes n: "3 \<le> length profile_2d" and i: "i < length profile_2d"
    and pi: "profile_2d ! i = (xi, zi)"
    and pj: "profile_2d ! ((i + 1) mod length profile_2d) = (xj, zj)"
  shows "\<exists>m. extrude_profile profile_2d y_front y_back = Inr m \<and>
           polygons m ! (i + 2) = ring_quad (length profile_2d) i \<and>
           face_normal m (polygons m ! (i + 2)) = vscale (- (zj - zi), 0, xj - xi) (y_back - y_front)"
proof -
  let ?n = "length profile_2d"
  let ?j = "(i + 1) mod ?n"
  let ?vs = "map (\<lambda>(x, z). (x, y_front, z)) profile_2d @ map (\<lambda>(x, z). (x, y_back, z)) profile_2d"
  have "0 < ?n" using i by (cases profile_2d) simp_all
  then have j: "?j < ?n" by simp
  have v0: "?vs ! i = (xi, y_front, zi)"
    using i pi by (simp add: nth_append)
  have v1: "?vs ! ?j = (xj, y_front, zj)"
    using j pj by (simp add: nth_append)
  have v2: "?vs ! (?n + ?j) = (xj, y_back, zj)"
    using j pj by (simp add: nth_append)
  have q: "(map (ring_quad ?n) [0..<?n]) ! i = ring_quad ?n i"
    using i by simp
  have nrm: "face_normal \<lparr>vertices = ?vs, polygons = ps\<rparr> (ring_quad ?n i) =
      vscale (- (zj - zi), 0, xj - xi) (y_back - y_front)" for ps
    by (simp add: face_normal_def ring_quad_def v0 v1 v2 del: One_nat_def) (simp add: algebra_simps)
  show ?thesis
    by (simp add: extrude_profile_eq [OF n] q nrm)
qed

text \<open>
  Claim C4, as the code has it. The right-hand-rule normal of the side quad of the
  profile edge from \<open>(xi, zi)\<close> to \<open>(xj, zj)\<close> is \<open>(y_back - y_front) * (-(zj - zi), 0, xj - xi)\<close>:
  the edge turned by a quarter in the profile plane, on the side the sign of
  \<open>y_back - y_front\<close> gives. Exchanging the two ring offsets, which is what \<open>is_right\<close>
  does, turns every side normal into its opposite. The centroid plays no part.
\<close>

theorem side_quad_normal:
  assumes "3 \<le> length profile_2d" and "i < length profile_2d"
    and "profile_2d ! i = (xi, zi)"
    and "profile_2d ! ((i + 1) mod length profile_2d) = (xj, zj)"
  shows "\<exists>m m'. extrude_profile profile_2d y_front y_back = Inr m \<and>
           extrude_profile profile_2d y_back y_front = Inr m' \<and>
           polygons m ! (i + 2) = ring_quad (length profile_2d) i \<and>
           polygons m' ! (i + 2) = ring_quad (length profile_2d) i \<and>
           face_normal m (polygons m ! (i + 2)) =
             vscale (- (zj - zi), 0, xj - xi) (y_back - y_front) \<and>
           face_normal m' (polygons m' ! (i + 2)) =
             vscale (face_normal m (polygons m ! (i + 2))) (-1)"
proof -
  obtain m where m: "extrude_profile profile_2d y_front y_back = Inr m"
      "polygons m ! (i + 2) = ring_quad (length profile_2d) i"
      "face_normal m (polygons m ! (i + 2)) = vscale (- (zj - zi), 0, xj - xi) (y_back - y_front)"
    using extrude_profile_quad [OF assms] by blast
  obtain m' where m': "extrude_profile profile_2d y_back y_front = Inr m'"
      "polygons m' ! (i + 2) = ring_quad (length profile_2d) i"
      "face_normal m' (polygons m' ! (i + 2)) = vscale (- (zj - zi), 0, xj - xi) (y_front - y_back)"
    using extrude_profile_quad [OF assms] by blast
  have "vscale (- (zj - zi), 0, xj - xi) (y_front - y_back) =
      vscale (vscale (- (zj - zi), 0, xj - xi) (y_back - y_front)) (-1)"
    by (simp add: algebra_simps)
  with m m' show ?thesis by simp
qed

theorem side_quad_normal_witness:
  "\<exists>m m'. extrude_profile profile_2d_cabinet (-0.01) 0.01 = Inr m \<and>
           extrude_profile profile_2d_cabinet 0.01 (-0.01) = Inr m' \<and>
           polygons m ! (0 + 2) = ring_quad 15 0 \<and>
           polygons m' ! (0 + 2) = ring_quad 15 0 \<and>
           face_normal m (polygons m ! (0 + 2)) = (- 0.003, 0, 0) \<and>
           face_normal m' (polygons m' ! (0 + 2)) =
             vscale (face_normal m (polygons m ! (0 + 2))) (-1)"
proof -
  have n: "3 \<le> length profile_2d_cabinet" and i: "0 < length profile_2d_cabinet"
    and pi: "profile_2d_cabinet ! 0 = (0, 0)"
    and pj: "profile_2d_cabinet ! ((0 + 1) mod length profile_2d_cabinet) = (0, 0.15)"
    by (simp_all add: profile_2d_cabinet_def)
  show ?thesis
    using side_quad_normal [OF n i pi pj, of "-0.01" "0.01"]
    by (simp add: profile_2d_cabinet_length)
qed

text \<open>
  The claim as it is stated fails on the left panel of the Upright cabinet: the normal of
  its first side quad (the front edge at \<open>x = 0\<close>) points towards the centroid of the
  profile, whose x coordinate is negative.
\<close>

theorem side_quad_normal_counterexample:
  "\<not> points_away_from (projr (side_panel_mesh False))
       (polygons (projr (side_panel_mesh False)) ! 2)
       (profile_centroid profile_2d_cabinet (-0.01) 0.01)"
proof -
  let ?m = "projr (side_panel_mesh False)"
  have q: "polygons ?m ! 2 = [0, 1, 16, 15]"
    by (simp add: side_panel_mesh_eq ring_quad_def upt_conv_Cons)
  have v: "vertices ?m ! 0 = (0, -0.01, 0)" "vertices ?m ! Suc 0 = (0, -0.01, 0.15)"
      "vertices ?m ! 16 = (0, 0.01, 0.15)" "vertices ?m ! 15 = (0, 0.01, 0)"
    by (simp_all add: side_panel_mesh_eq profile_2d_cabinet_def)
  have n: "face_normal ?m [0, 1, 16, 15] = (- 0.003, 0, 0)"
    by (simp add: face_normal_def v)
  have f: "face_centre ?m [0, 1, 16, 15] = (0, 0, 0.075)"
    by (simp add: face_centre_def mean_point_def v)
  have c: "profile_centroid profile_2d_cabinet (-0.01) 0.01 = (- (203 / 1500), 0, 67 / 60)"
    by (simp add: profile_centroid_def mean_point_def profile_2d_cabinet_def)
  show ?thesis
    unfolding points_away_from_def q n f c by simp
qed

section \<open>Cutout panels\<close>

lemma build_faces_bezel:
  assumes "length cs = 16"
  shows "build_faces cs bezel_faces = Inr \<lparr>vertices = cs, polygons = bezel_faces\<rparr>"
proof -
  have v: "verts_new_all bmesh_new cs = ([0..<16], \<lparr>bm_verts = cs, bm_faces = []\<rparr>)"
    by (simp add: verts_new_all_eq bmesh_new_def assms)
  have i: "map (map (\<lambda>k. [0..<16] ! k)) bezel_faces = bezel_faces"
    by (simp add: bezel_faces_def)
  have f: "faces_new_all \<lparr>bm_verts = cs, bm_faces = []\<rparr> bezel_faces =
      Inr \<lparr>bm_verts = cs, bm_faces = bezel_faces\<rparr>"
    by (simp add: bezel_faces_def faces_new_def face_exists_def)
  show ?thesis
    unfolding build_faces_def v Let_def prod.case i f by (simp add: to_mesh_def)
qed

lemma build_faces_box:
  assumes "length cs = 8"
  shows "build_faces cs box_faces = Inr \<lparr>vertices = cs, polygons = box_faces\<rparr>"
proof -
  have v: "verts_new_all bmesh_new cs = ([0..<8], \<lparr>bm_verts = cs, bm_faces = []\<rparr>)"
    by (simp add: verts_new_all_eq bmesh_new_def assms)
  have i: "map (map (\<lambda>k. [0..<8] ! k)) box_faces = box_faces"
    by (simp add: box_faces_def)
  have f: "faces_new_all \<lparr>bm_verts = cs, bm_faces = []\<rparr> box_faces =
      Inr \<lparr>bm_verts = cs, bm_faces = box_faces\<rparr>"
    by (simp add: box_faces_def faces_new_def face_exists_def)
  show ?thesis
    unfolding build_faces_def v Let_def prod.case i f by (simp add: to_mesh_def)
qed

lemma bezel_mesh_cocktail_ok:
  "\<exists>m. bezel_mesh_cocktail outer_w outer_h cutout_w cutout_h thickness = Inr m \<and>
       length (vertices m) = 16 \<and> polygons m = bezel_faces"
  by (simp add: bezel_mesh_cocktail_def Let_def build_faces_bezel)

lemma bezel_mesh_upright_plane_ok:
  "\<exists>m. bezel_mesh_upright_plane outer_w outer_h cutout_w cutout_h thickness = Inr m \<and>
       length (vertices m) = 16 \<and> polygons m = bezel_faces"
  by (simp add: bezel_mesh_upright_plane_def Let_def build_faces_bezel)

lemma bezel_mesh_cabinet_ok:
  "\<exists>m. bezel_mesh_cabinet = Inr m \<and> length (vertices m) = 16 \<and> polygons m = bezel_faces"
  by (simp add: bezel_mesh_cabinet_def Let_def build_faces_bezel)

lemma cp_shell_mesh_ok: "\<exists>m. cp_shell_mesh = Inr m"
  by (simp add: cp_shell_mesh_def Let_def build_faces_box)

text \<open>The sixteen faces: four quads on the front ring (vertices 0 to 7), four on the back
  ring (8 to 15), four on the outer wall (the outer corners 0 to 3 and 8 to 11) and four
  in the bore (the cutout corners 4 to 7 and 12 to 15).\<close>

lemma bezel_faces_groups:
  "length bezel_faces = 16 \<and>
   list_all (\<lambda>f. length f = 4 \<and> set f \<subseteq> {0..<8}) (take 4 bezel_faces) \<and>
   list_all (\<lambda>f. length f = 4 \<and> set f \<subseteq> {8..<16}) (take 4 (drop 4 bezel_faces)) \<and>
   list_all (\<lambda>f. length f = 4 \<and> set f \<subseteq> {0..<4} \<union> {8..<12}) (take 4 (drop 8 bezel_faces)) \<and>
   list_all (\<lambda>f. length f = 4 \<and> set f \<subseteq> {4..<8} \<union> {12..<16}) (drop 12 bezel_faces)"
  by (simp add: bezel_faces_def)

text \<open>
  Claim C5. A cutout panel whose outer dimensions exceed the cutout on both axes is a mesh
  of exactly 16 vertices and 16 faces: 4 front ring quads, 4 back ring quads, 4 outer wall
  quads and 4 bore quads. This is so for the builder of the Cocktail cabinet, for the one
  of the Driving and LightGun cabinets, and for the Upright's, whose dimensions are fixed
  (outer 0.45 by 0.40, cutout 0.35 by 0.28).
\<close>

theorem cutout_panel_counts:
  assumes "cutout_w < outer_w" and "cutout_h < outer_h"
  shows "(\<exists>m. bezel_mesh_cocktail outer_w outer_h cutout_w cutout_h thickness = Inr m \<and>
            length (vertices m) = 16 \<and> length (polygons m) = 16 \<and> polygons m = bezel_faces) \<and>
         (\<exists>m. bezel_mesh_upright_plane outer_w outer_h cutout_w cutout_h thickness = Inr m \<and>
            length (vertices m) = 16 \<and> length (polygons m) = 16 \<and> polygons m = bezel_faces) \<and>
         (\<exists>m. bezel_mesh_cabinet = Inr m \<and>
            length (vertices m) = 16 \<and> length (polygons m) = 16 \<and> polygons m = bezel_faces) \<and>
         list_all (\<lambda>f. length f = 4 \<and> set f \<subseteq> {0..<8}) (take 4 bezel_faces) \<and>
         list_all (\<lambda>f. length f = 4 \<and> set f \<subseteq> {8..<16}) (take 4 (drop 4 bezel_faces)) \<and>
         list_all (\<lambda>f. length f = 4 \<and> set f \<subseteq> {0..<4} \<union> {8..<12}) (take 4 (drop 8 bezel_faces)) \<and>
         list_all (\<lambda>f. length f = 4 \<and> set f \<subseteq> {4..<8} \<union> {12..<16}) (drop 12 bezel_faces)"
proof -
  have l: "length bezel_faces = 16"
    using bezel_faces_groups by simp
  obtain m1 where m1: "bezel_mesh_cocktail outer_w outer_h cutout_w cutout_h thickness = Inr m1"
      "length (vertices m1) = 16" "polygons m1 = bezel_faces"
    using bezel_mesh_cocktail_ok by blast
  obtain m2 where m2: "bezel_mesh_upright_plane outer_w outer_h cutout_w cutout_h thickness = Inr m2"
      "length (vertices m2) = 16" "polygons m2 = bezel_faces"
    using bezel_mesh_upright_plane_ok by blast
  obtain m3 where m3: "bezel_mesh_cabinet = Inr m3"
      "length (vertices m3) = 16" "polygons m3 = bezel_faces"
    using bezel_mesh_cabinet_ok by blast
  show ?thesis
    using bezel_faces_groups by (simp add: m1 m2 m3 l)
qed

theorem cutout_panel_counts_witness:
  "(0.45 :: real) < 0.70 \<and> (0.35 :: real) < 0.55 \<and>
   (\<exists>m. bezel_mesh_cocktail 0.70 0.55 0.45 0.35 0.01 = Inr m \<and>
      length (vertices m) = 16 \<and> length (polygons m) = 16 \<and> polygons m = bezel_faces) \<and>
   (\<exists>m. bezel_mesh_upright_plane 0.70 0.55 0.45 0.35 0.01 = Inr m \<and>
      length (vertices m) = 16 \<and> length (polygons m) = 16 \<and> polygons m = bezel_faces)"
proof -
  have h: "(0.45 :: real) < 0.70" "(0.35 :: real) < 0.55"
    by simp_all
  show ?thesis
    using h cutout_panel_counts [OF h, of "0.01"] by simp
qed

text \<open>
  Claim C6, as the code has it. The builders make no check of the dimensions and have no
  \<open>DegenerateCutout\<close> error: for every outer and cutout size, also when the cutout is not
  strictly smaller than the outer panel, they return a mesh of 16 vertices and the same
  16 faces.
\<close>

theorem cutout_panel_never_fails:
  "(\<exists>m. bezel_mesh_cocktail outer_w outer_h cutout_w cutout_h thickness = Inr m \<and>
      length (vertices m) = 16 \<and> length (polygons m) = 16) \<and>
   (\<exists>m. bezel_mesh_upright_plane outer_w outer_h cutout_w cutout_h thickness = Inr m \<and>
      length (vertices m) = 16 \<and> length (polygons m) = 16)"
proof -
  have l: "length bezel_faces = 16"
    using bezel_faces_groups by simp
  obtain m1 where m1: "bezel_mesh_cocktail outer_w outer_h cutout_w cutout_h thickness = Inr m1"
      "length (vertices m1) = 16" "polygons m1 = bezel_faces"
    using bezel_mesh_cocktail_ok by blast
  obtain m2 where m2: "bezel_mesh_upright_plane outer_w outer_h cutout_w cutout_h thickness = Inr m2"
      "length (vertices m2) = 16" "polygons m2 = bezel_faces"
    using bezel_mesh_upright_plane_ok by blast
  show ?thesis
    by (simp add: m1 m2 l)
qed

text \<open>
  The claim as it is stated fails: with the cutout as large as the outer panel (Cocktail
  builder) or larger (Driving and LightGun builder) a mesh is returned, not an error.
\<close>

theorem cutout_panel_degenerate_counterexample:
  "\<not> isl (bezel_mesh_cocktail 0.70 0.55 0.70 0.55 0.01) \<and>
   length (polygons (projr (bezel_mesh_cocktail 0.70 0.55 0.70 0.55 0.01))) = 16 \<and>
   \<not> isl (bezel_mesh_upright_plane 0.90 0.55 1.00 0.60 0.02) \<and>
   length (polygons (projr (bezel_mesh_upright_plane 0.90 0.55 1.00 0.60 0.02))) = 16"
proof -
  have l: "length bezel_faces = 16"
    using bezel_faces_groups by simp
  obtain m1 where m1: "bezel_mesh_cocktail 0.70 0.55 0.70 0.55 0.01 = Inr m1"
      "polygons m1 = bezel_faces"
    using bezel_mesh_cocktail_ok by blast
  obtain m2 where m2: "bezel_mesh_upright_plane 0.90 0.55 1.00 0.60 0.02 = Inr m2"
      "polygons m2 = bezel_faces"
    using bezel_mesh_upright_plane_ok by blast
  show ?thesis
    unfolding m1(1) m2(1) by (simp add: m1(2) m2(2) l)
qed

section \<open>Lengths and normalised vectors\<close>

lemma dot_self_nonneg: "0 \<le> dot v v"
  by (cases v) simp

lemma vlength_less_iff: "0 < k \<Longrightarrow> vlength v < k \<longleftrightarrow> dot v v < k * k"
proof -
  assume k: "0 < k"
  have "sqrt (dot v v) < k \<longleftrightarrow> sqrt (dot v v) < sqrt (k * k)"
    using k by simp
  also have "\<dots> \<longleftrightarrow> dot v v < k * k"
    by (rule real_sqrt_less_iff)
  finally show ?thesis by (simp add: vlength_def)
qed

lemma vlength_greater_iff: "0 \<le> k \<Longrightarrow> k < vlength v \<longleftrightarrow> k * k < dot v v"
proof -
  assume k: "0 \<le> k"
  have "k < sqrt (dot v v) \<longleftrightarrow> sqrt (k * k) < sqrt (dot v v)"
    using k by simp
  also have "\<dots> \<longleftrightarrow> k * k < dot v v"
    by (rule real_sqrt_less_iff)
  finally show ?thesis by (simp add: vlength_def)
qed

text \<open>The test \<open>length < 0.001\<close>, in the form the simplifier gives it.\<close>

lemma short_iff: "vlength v * 1000 < 1 \<longleftrightarrow> dot v v * 1000000 < 1"
  using vlength_less_iff [of "0.001" v] by simp

lemma vlength_sq: "vlength v * vlength v = dot v v"
  by (simp add: vlength_def dot_self_nonneg)

lemma dot_vscale: "dot (vscale v k) (vscale w l) = k * l * dot v w"
  by (cases v, cases w) (simp add: algebra_simps)

lemma dot_vscale_left: "dot (vscale v k) w = k * dot v w"
  by (cases v, cases w) (simp add: algebra_simps)

lemma dot_normalize_self:
  assumes "vlength v \<noteq> 0"
  shows "dot (normalize v) (normalize v) = 1"
proof -
  have "dot (normalize v) (normalize v) = dot v v / (vlength v * vlength v)"
    using assms by (simp add: normalize_def dot_vscale)
  also have "\<dots> = 1"
    using assms dot_self_nonneg [of v] by (auto simp: vlength_sq vlength_def)
  finally show ?thesis .
qed

lemma vlength_normalize: "vlength v \<noteq> 0 \<Longrightarrow> vlength (normalize v) = 1"
  by (simp add: vlength_def dot_normalize_self [unfolded vlength_def])

lemma not_short_nonzero: "\<not> vlength v < 0.001 \<Longrightarrow> vlength v \<noteq> 0"
  by auto

lemma dot_cross_right: "dot (cross u d) d = 0"
  by (cases u, cases d) (simp add: algebra_simps)

lemma dot_cross_left: "dot (cross u d) u = 0"
  by (cases u, cases d) (simp add: algebra_simps)

section \<open>The frame of a sweep segment\<close>

text \<open>For a direction of length 1 the rotation axis \<open>up \<times> direction\<close> is longer than 0.001,
  whichever reference axis was chosen.\<close>

lemma tube_axis_long:
  assumes "dot d d = 1"
  shows "0.001 < vlength (cross (tube_up d) d)"
proof -
  obtain a b c where d: "d = (a, b, c)" by (cases d)
  have unit: "a * a + b * b + c * c = 1" using assms d by simp
  have eps: "(0.001 :: real) * 0.001 = 1 / 1000000" by simp
  have "0.001 * 0.001 < dot (cross (tube_up d) d) (cross (tube_up d) d)"
  proof (cases "\<bar>c\<bar> > 0.999")
    case True
    then have up: "tube_up (a, b, c) = (1, 0, 0)"
      by (simp add: tube_up_def)
    have "(999 / 1000) * (999 / 1000) < \<bar>c\<bar> * \<bar>c\<bar>"
      using True by (intro mult_strict_mono) simp_all
    then have "998001 / 1000000 < c * c" by simp
    moreover have "0 \<le> b * b" by simp
    ultimately have "1 / 1000000 < c * c + b * b" by linarith
    then show ?thesis
      unfolding eps d up by simp
  next
    case False
    then have up: "tube_up (a, b, c) = (0, 0, 1)"
      by (simp add: tube_up_def)
    have "\<bar>c\<bar> * \<bar>c\<bar> \<le> (999 / 1000) * (999 / 1000)"
      using False by (intro mult_mono) simp_all
    then have "c * c \<le> 998001 / 1000000" by simp
    with unit have "1 / 1000000 < b * b + a * a" by linarith
    then show ?thesis
      unfolding eps d up by simp
  qed
  then show ?thesis
    using vlength_greater_iff [of "0.001" "cross (tube_up d) d"] by simp
qed

lemma tube_rotation_eq:
  assumes "dot d d = 1"
  shows "tube_rotation d =
     Some (arccos (max (-1) (min 1 (dot (tube_up d) d))), normalize (cross (tube_up d) d))"
  using tube_axis_long [OF assms] by (simp add: tube_rotation_def Let_def)

lemma create_tube_segment_eq:
  "create_tube_segment p1 p2 r s =
     (if vlength (vsub p2 p1) < 0.001 then (None, s)
      else (Some (next_oid s),
            set_rotation_axis_angle (next_oid s) (the (tube_rotation (normalize (vsub p2 p1))))
              (snd (primitive_cylinder_add r (vlength (vsub p2 p1))
                 ((vx p1 + vx p2) / 2, (vy p1 + vy p2) / 2, (vz p1 + vz p2) / 2) s))))"
proof (cases "vlength (vsub p2 p1) < 0.001")
  case True
  then show ?thesis by (simp add: create_tube_segment_def Let_def)
next
  case False
  then have "dot (normalize (vsub p2 p1)) (normalize (vsub p2 p1)) = 1"
    by (intro dot_normalize_self not_short_nonzero)
  then have rot: "tube_rotation (normalize (vsub p2 p1)) =
      Some (the (tube_rotation (normalize (vsub p2 p1))))"
    by (simp add: tube_rotation_eq)
  show ?thesis
    using False
    by (simp add: create_tube_segment_def Let_def primitive_cylinder_add_def add_operator_def)
       (subst rot, simp)
qed

lemma bind_err_assoc:
  "bind_err (bind_err m f) g = bind_err m (\<lambda>x. bind_err (f x) g)"
  by (cases m) simp_all

lemma bind_err_return: "bind_err m Inr = m"
  by (cases m) simp_all

lemma t_molding_mesh_strips:
  "t_molding_mesh =
     bind_err (add_strips t_molding_strips 0.012 0.008 bmesh_new) (\<lambda>bm. Inr (to_mesh bm))"
  unfolding t_molding_mesh_def t_molding_strips_def Let_def add_strips.simps bind_err_assoc
    bind_err.simps
  by (rule refl)

lemma vlength_z: "vlength (0, 0, c) = \<bar>c\<bar>"
  by (simp add: vlength_def)

lemma vlength_y: "vlength (0, b, 0) = \<bar>b\<bar>"
  by (simp add: vlength_def)

lemma normalize_z: "0 < c \<Longrightarrow> normalize (0, 0, c) = (0, 0, 1)"
  by (simp add: normalize_def vlength_z)

lemma normalize_y: "0 < b \<Longrightarrow> normalize (0, b, 0) = (0, 1, 0)"
  by (simp add: normalize_def vlength_y)

text \<open>
  Claim C8. A tube segment that is built (Cocktail, Driving and LightGun sweeps: the
  end points are at least 0.001 apart) takes as reference axis the world up axis
  \<open>(0, 0, 1)\<close>, unless the magnitude of its dot product with the normalised direction
  exceeds 0.999, and then \<open>(1, 0, 0)\<close>. In both cases the rotation axis
  \<open>up \<times> direction\<close> is longer than 0.001, so \<open>create_tube_segment\<close> always assigns the
  cylinder an axis-angle rotation, about an axis of length 1 perpendicular to the
  direction and to the reference axis, also when the segment is vertical or nearly so.
  The box strips of the Upright cabinet are the five calls of \<open>add_strip\<close> in
  \<open>create_t_molding\<close>. Each of them is built, and its two offsets follow the same rule:
  with the reference axis chosen as above, the offset of half the width is along the
  reference axis and the offset of half the depth along \<open>direction \<times> reference\<close>; both
  are perpendicular to the segment and to each other.
\<close>

theorem sweep_segment_frame:
  "(\<not> vlength (vsub p2 p1) < 0.001 \<longrightarrow>
      tube_up (normalize (vsub p2 p1)) =
        (if \<bar>dot (normalize (vsub p2 p1)) (0, 0, 1)\<bar> > 0.999 then (1, 0, 0) else (0, 0, 1)) \<and>
      0.001 < vlength (cross (tube_up (normalize (vsub p2 p1))) (normalize (vsub p2 p1))) \<and>
      (\<exists>rot_angle rot_axis.
         create_tube_segment p1 p2 r s =
           (Some (next_oid s),
            set_rotation_axis_angle (next_oid s) (rot_angle, rot_axis)
              (snd (primitive_cylinder_add r (vlength (vsub p2 p1))
                 ((vx p1 + vx p2) / 2, (vy p1 + vy p2) / 2, (vz p1 + vz p2) / 2) s))) \<and>
         tube_rotation (normalize (vsub p2 p1)) = Some (rot_angle, rot_axis) \<and>
         rot_axis =
           normalize (cross (tube_up (normalize (vsub p2 p1))) (normalize (vsub p2 p1))) \<and>
         vlength rot_axis = 1 \<and>
         dot rot_axis (normalize (vsub p2 p1)) = 0 \<and>
         dot rot_axis (tube_up (normalize (vsub p2 p1))) = 0)) \<and>
   t_molding_mesh =
     bind_err (add_strips t_molding_strips 0.012 0.008 bmesh_new) (\<lambda>bm. Inr (to_mesh bm)) \<and>
   list_all (\<lambda>(q1, q2).
       \<not> vlength (vsub q2 q1) < 0.001 \<and>
       (let direction = normalize (vsub q2 q1);
            ref = (if \<bar>dot direction (0, 0, 1)\<bar> > 0.999 then (1, 0, 0) else (0, 0, 1));
            (perp1, perp2) = strip_perps direction w d
        in (perp1, perp2) =
             (if \<bar>dot direction (0, 0, 1)\<bar> > 0.999
              then (vscale ref (w / 2), vscale (cross direction ref) (d / 2))
              else (vscale (cross direction ref) (d / 2), vscale ref (w / 2))) \<and>
           dot perp1 direction = 0 \<and> dot perp2 direction = 0 \<and> dot perp1 perp2 = 0))
     t_molding_strips"
proof -
  have tube: "tube_up (normalize (vsub p2 p1)) =
        (if \<bar>dot (normalize (vsub p2 p1)) (0, 0, 1)\<bar> > 0.999 then (1, 0, 0) else (0, 0, 1)) \<and>
      0.001 < vlength (cross (tube_up (normalize (vsub p2 p1))) (normalize (vsub p2 p1))) \<and>
      (\<exists>rot_angle rot_axis.
         create_tube_segment p1 p2 r s =
           (Some (next_oid s),
            set_rotation_axis_angle (next_oid s) (rot_angle, rot_axis)
              (snd (primitive_cylinder_add r (vlength (vsub p2 p1))
                 ((vx p1 + vx p2) / 2, (vy p1 + vy p2) / 2, (vz p1 + vz p2) / 2) s))) \<and>
         tube_rotation (normalize (vsub p2 p1)) = Some (rot_angle, rot_axis) \<and>
         rot_axis =
           normalize (cross (tube_up (normalize (vsub p2 p1))) (normalize (vsub p2 p1))) \<and>
         vlength rot_axis = 1 \<and>
         dot rot_axis (normalize (vsub p2 p1)) = 0 \<and>
         dot rot_axis (tube_up (normalize (vsub p2 p1))) = 0)"
    if built: "\<not> vlength (vsub p2 p1) < 0.001"
  proof -
    let ?d = "normalize (vsub p2 p1)"
    let ?axis = "cross (tube_up ?d) ?d"
    let ?angle = "arccos (max (-1) (min 1 (dot (tube_up ?d) ?d)))"
    have unit: "dot ?d ?d = 1"
      using built by (intro dot_normalize_self not_short_nonzero)
    have long: "0.001 < vlength ?axis"
      by (rule tube_axis_long [OF unit])
    then have nz: "vlength ?axis \<noteq> 0" by simp
    have len: "vlength (normalize ?axis) = 1"
      by (rule vlength_normalize [OF nz])
    have scale: "normalize ?axis = vscale ?axis (1 / vlength ?axis)"
      using nz by (simp add: normalize_def)
    have perp_d: "dot (normalize ?axis) ?d = 0"
      unfolding scale dot_vscale_left by (simp add: dot_cross_right)
    have perp_up: "dot (normalize ?axis) (tube_up ?d) = 0"
      unfolding scale dot_vscale_left by (simp add: dot_cross_left)
    have up: "tube_up ?d = (if \<bar>dot ?d (0, 0, 1)\<bar> > 0.999 then (1, 0, 0) else (0, 0, 1))"
      by (simp add: tube_up_def Let_def)
    have rot: "tube_rotation ?d = Some (?angle, normalize ?axis)"
      by (rule tube_rotation_eq [OF unit])
    have seg: "create_tube_segment p1 p2 r s =
        (Some (next_oid s),
         set_rotation_axis_angle (next_oid s) (?angle, normalize ?axis)
           (snd (primitive_cylinder_add r (vlength (vsub p2 p1))
              ((vx p1 + vx p2) / 2, (vy p1 + vy p2) / 2, (vz p1 + vz p2) / 2) s)))"
      unfolding create_tube_segment_eq rot using built by simp
    from seg rot len perp_d perp_up
    have "\<exists>rot_angle rot_axis.
         create_tube_segment p1 p2 r s =
           (Some (next_oid s),
            set_rotation_axis_angle (next_oid s) (rot_angle, rot_axis)
              (snd (primitive_cylinder_add r (vlength (vsub p2 p1))
                 ((vx p1 + vx p2) / 2, (vy p1 + vy p2) / 2, (vz p1 + vz p2) / 2) s))) \<and>
         tube_rotation ?d = Some (rot_angle, rot_axis) \<and>
         rot_axis = normalize ?axis \<and>
         vlength rot_axis = 1 \<and>
         dot rot_axis ?d = 0 \<and>
         dot rot_axis (tube_up ?d) = 0"
      by (intro exI [of _ ?angle] exI [of _ "normalize ?axis"] conjI refl)
    with up long show ?thesis
      by (intro conjI)
  qed
  have strips: "list_all (\<lambda>(q1, q2).
       \<not> vlength (vsub q2 q1) < 0.001 \<and>
       (let direction = normalize (vsub q2 q1);
            ref = (if \<bar>dot direction (0, 0, 1)\<bar> > 0.999 then (1, 0, 0) else (0, 0, 1));
            (perp1, perp2) = strip_perps direction w d
        in (perp1, perp2) =
             (if \<bar>dot direction (0, 0, 1)\<bar> > 0.999
              then (vscale ref (w / 2), vscale (cross direction ref) (d / 2))
              else (vscale (cross direction ref) (d / 2), vscale ref (w / 2))) \<and>
           dot perp1 direction = 0 \<and> dot perp2 direction = 0 \<and> dot perp1 perp2 = 0))
     t_molding_strips"
    by (simp add: t_molding_strips_def vlength_z vlength_y normalize_z normalize_y
        strip_perps_def)
  show ?thesis
    by (rule conjI [OF impI conjI [OF t_molding_mesh_strips strips]]) (rule tube)
qed

text \<open>A vertical segment of length 1, from the origin, in the empty scene: the secondary
  axis is taken and the rotation is about an axis of length 1.\<close>

theorem sweep_segment_frame_witness:
  "\<not> vlength (vsub (0, 0, 1) (0, 0, 0)) < 0.001 \<and>
   tube_up (normalize (vsub (0, 0, 1) (0, 0, 0))) =
     (if \<bar>dot (normalize (vsub (0, 0, 1) (0, 0, 0))) (0, 0, 1)\<bar> > 0.999
      then (1, 0, 0) else (0, 0, 1)) \<and>
   0.001 < vlength (cross (tube_up (normalize (vsub (0, 0, 1) (0, 0, 0))))
                      (normalize (vsub (0, 0, 1) (0, 0, 0)))) \<and>
   (\<exists>rot_angle rot_axis.
      tube_rotation (normalize (vsub (0, 0, 1) (0, 0, 0))) = Some (rot_angle, rot_axis) \<and>
      vlength rot_axis = 1)"
proof -
  have h: "\<not> vlength (vsub (0, 0, 1) (0, 0, 0)) < 0.001"
    by (simp add: short_iff vlength_z)
  from sweep_segment_frame [of "(0, 0, 1)" "(0, 0, 0)" "0.006"
      "\<lparr>objects = [], selected = [], active = None, next_oid = 0\<rparr>" "0.012" "0.008"] h
  have "tube_up (normalize (vsub (0, 0, 1) (0, 0, 0))) =
       (if \<bar>dot (normalize (vsub (0, 0, 1) (0, 0, 0))) (0, 0, 1)\<bar> > 0.999
        then (1, 0, 0) else (0, 0, 1)) \<and>
     0.001 < vlength (cross (tube_up (normalize (vsub (0, 0, 1) (0, 0, 0))))
                        (normalize (vsub (0, 0, 1) (0, 0, 0)))) \<and>
     (\<exists>rot_angle rot_axis.
        tube_rotation (normalize (vsub (0, 0, 1) (0, 0, 0))) = Some (rot_angle, rot_axis) \<and>
        vlength rot_axis = 1)"
    by blast
  with h show ?thesis by (rule conjI)
qed

section \<open>Counting the segments of a sweep\<close>

lemma create_tube_segment_short:
  "vlength (vsub p2 p1) < 0.001 \<Longrightarrow> create_tube_segment p1 p2 r s = (None, s)"
  by (simp add: create_tube_segment_eq)

lemma create_tube_segment_built:
  assumes "\<not> vlength (vsub p2 p1) < 0.001"
  shows "\<exists>s'. create_tube_segment p1 p2 r s = (Some (next_oid s), s') \<and>
            length (objects s') = length (objects s) + 1"
  using assms
  by (simp add: create_tube_segment_eq set_rotation_axis_angle_def update_obj_def
      primitive_cylinder_add_def add_operator_def Let_def)

text \<open>The loop builds one segment for each pair of consecutive waypoints that are at
  least 0.001 apart, and adds one object to the scene for each.\<close>

lemma tube_segments_count:
  "length (fst (tube_segments path r s)) =
     length (filter (\<lambda>(p1, p2). \<not> vlength (vsub p2 p1) < 0.001) (zip path (tl path))) \<and>
   length (objects (snd (tube_segments path r s))) =
     length (objects s) +
     length (filter (\<lambda>(p1, p2). \<not> vlength (vsub p2 p1) < 0.001) (zip path (tl path)))"
proof (induction path r s rule: tube_segments.induct)
  case (1 p1 p2 path radius s)
  obtain seg s1 where seg: "create_tube_segment p1 p2 radius s = (seg, s1)"
    by (cases "create_tube_segment p1 p2 radius s")
  obtain segments s2 where rest: "tube_segments (p2 # path) radius s1 = (segments, s2)"
    by (cases "tube_segments (p2 # path) radius s1")
  have ih: "length segments =
        length (filter (\<lambda>(p1, p2). \<not> vlength (vsub p2 p1) < 0.001) (zip (p2 # path) path))"
      "length (objects s2) = length (objects s1) +
        length (filter (\<lambda>(p1, p2). \<not> vlength (vsub p2 p1) < 0.001) (zip (p2 # path) path))"
    using "1.IH" [OF seg [symmetric] refl] rest by simp_all
  have step: "tube_segments (p1 # p2 # path) radius s =
      (case seg of None \<Rightarrow> (segments, s2) | Some cyl \<Rightarrow> (cyl # segments, s2))"
    by (simp add: seg rest)
  show ?case
  proof (cases "vlength (vsub p2 p1) < 0.001")
    case True
    with seg have "seg = None" and o1: "length (objects s1) = length (objects s)"
      by (simp_all add: create_tube_segment_short)
    with True ih show ?thesis
      unfolding step by simp
  next
    case False
    from create_tube_segment_built [OF False, of radius s] seg
    have "seg = Some (next_oid s)" and o1: "length (objects s1) = length (objects s) + 1"
      by auto
    with False ih show ?thesis
      unfolding step by simp
  qed
qed simp_all

lemma zip_cons_self: "xs \<noteq> [] \<Longrightarrow> zip (a # xs) xs = (a, hd xs) # zip xs (tl xs)"
  by (cases xs) simp_all

lemma zip_tl_append:
  "zip (pre @ q # rest) (tl (pre @ q # rest)) =
     zip (pre @ [q]) (tl (pre @ [q])) @ zip (q # rest) rest"
proof (induction pre)
  case Nil
  show ?case by simp
next
  case (Cons a pre)
  have "zip (a # pre @ q # rest) (pre @ q # rest) =
      (a, hd (pre @ q # rest)) # zip (pre @ q # rest) (tl (pre @ q # rest))"
    by (rule zip_cons_self) simp
  moreover have "zip (a # pre @ [q]) (pre @ [q]) =
      (a, hd (pre @ [q])) # zip (pre @ [q]) (tl (pre @ [q]))"
    by (rule zip_cons_self) simp
  moreover have "hd (pre @ q # rest) = hd (pre @ [q])"
    by (cases pre) simp_all
  ultimately show ?case
    using Cons.IH by simp
qed

lemma vlength_vsub_self: "vlength (vsub q q) = 0"
  by (cases q) (simp add: vlength_def)

lemma filter_all: "list_all P xs \<Longrightarrow> filter P xs = xs"
  by (induction xs) simp_all

section \<open>Box strips never fail\<close>

text \<open>A face whose first vertex is newer than every vertex of the faces in \<open>old\<close> can
  only clash with the faces added since.\<close>

lemma faces_new_fresh:
  assumes faces: "bm_faces bm = old @ new"
    and old: "list_all (\<lambda>g. list_all (\<lambda>v. v < n) g) old"
    and f: "f = a # rest" "n \<le> a" "3 \<le> length f" "distinct f"
    and new: "\<not> list_ex (\<lambda>g. length g = length f \<and> set f \<subseteq> set g) new"
  shows "faces_new bm f = Inr (bm\<lparr>bm_faces := old @ new @ [f]\<rparr>)"
proof -
  have "\<not> set f \<subseteq> set g" if "g \<in> set old" for g
  proof
    assume "set f \<subseteq> set g"
    then have "a \<in> set g" using f(1) by auto
    then have "a < n" using old that by (auto simp: list_all_iff)
    with f(2) show False by simp
  qed
  then have "\<not> list_ex (\<lambda>g. length g = length f \<and> set f \<subseteq> set g) old"
    by (auto simp: list_ex_iff)
  with new have "\<not> face_exists bm f"
    by (simp add: face_exists_def faces)
  with f(3,4) show ?thesis
    by (simp add: faces_new_def faces)
qed

lemma strip_faces_upt:
  "strip_faces [n..<n + 8] =
     [[n, n + 1, n + 2, n + 3], [n + 7, n + 6, n + 5, n + 4], [n, n + 4, n + 5, n + 1],
      [n + 1, n + 5, n + 6, n + 2], [n + 2, n + 6, n + 7, n + 3], [n + 3, n + 7, n + 4, n]]"
  by (simp add: strip_faces_def)

lemma strip_faces_new_all:
  assumes old: "list_all (\<lambda>g. list_all (\<lambda>v. v < n) g) (bm_faces bm)"
  shows "faces_new_all bm (strip_faces [n..<n + 8]) =
     Inr (bm\<lparr>bm_faces := bm_faces bm @ strip_faces [n..<n + 8]\<rparr>)"
proof -
  let ?old = "bm_faces bm"
  let ?F1 = "[n, n + 1, n + 2, n + 3]" and ?F2 = "[n + 7, n + 6, n + 5, n + 4]"
  let ?F3 = "[n, n + 4, n + 5, n + 1]" and ?F4 = "[n + 1, n + 5, n + 6, n + 2]"
  let ?F5 = "[n + 2, n + 6, n + 7, n + 3]" and ?F6 = "[n + 3, n + 7, n + 4, n]"
  have 1: "faces_new bm ?F1 = Inr (bm\<lparr>bm_faces := ?old @ [?F1]\<rparr>)"
    using faces_new_fresh [of bm ?old "[]" n ?F1, OF _ old] by simp
  have 2: "faces_new (bm\<lparr>bm_faces := ?old @ [?F1]\<rparr>) ?F2 =
      Inr (bm\<lparr>bm_faces := ?old @ [?F1, ?F2]\<rparr>)"
    using faces_new_fresh [of "bm\<lparr>bm_faces := ?old @ [?F1]\<rparr>" ?old "[?F1]" n ?F2, OF _ old]
    by simp
  have 3: "faces_new (bm\<lparr>bm_faces := ?old @ [?F1, ?F2]\<rparr>) ?F3 =
      Inr (bm\<lparr>bm_faces := ?old @ [?F1, ?F2, ?F3]\<rparr>)"
    using faces_new_fresh [of "bm\<lparr>bm_faces := ?old @ [?F1, ?F2]\<rparr>" ?old "[?F1, ?F2]" n ?F3, OF _ old]
    by simp
  have 4: "faces_new (bm\<lparr>bm_faces := ?old @ [?F1, ?F2, ?F3]\<rparr>) ?F4 =
      Inr (bm\<lparr>bm_faces := ?old @ [?F1, ?F2, ?F3, ?F4]\<rparr>)"
    using faces_new_fresh [of "bm\<lparr>bm_faces := ?old @ [?F1, ?F2, ?F3]\<rparr>" ?old "[?F1, ?F2, ?F3]" n ?F4, OF _ old]
    by simp
  have 5: "faces_new (bm\<lparr>bm_faces := ?old @ [?F1, ?F2, ?F3, ?F4]\<rparr>) ?F5 =
      Inr (bm\<lparr>bm_faces := ?old @ [?F1, ?F2, ?F3, ?F4, ?F5]\<rparr>)"
    using faces_new_fresh [of "bm\<lparr>bm_faces := ?old @ [?F1, ?F2, ?F3, ?F4]\<rparr>" ?old "[?F1, ?F2, ?F3, ?F4]" n ?F5, OF _ old]
    by simp
  have 6: "faces_new (bm\<lparr>bm_faces := ?old @ [?F1, ?F2, ?F3, ?F4, ?F5]\<rparr>) ?F6 =
      Inr (bm\<lparr>bm_faces := ?old @ [?F1, ?F2, ?F3, ?F4, ?F5, ?F6]\<rparr>)"
    using faces_new_fresh [of "bm\<lparr>bm_faces := ?old @ [?F1, ?F2, ?F3, ?F4, ?F5]\<rparr>" ?old "[?F1, ?F2, ?F3, ?F4, ?F5]" n ?F6, OF _ old]
    by simp
  show ?thesis
    unfolding strip_faces_upt faces_new_all.simps 1 2 3 4 5 6 bind_err.simps by simp
qed

lemma add_strip_short:
  "vlength (vsub p2 p1) < 0.001 \<Longrightarrow> add_strip p1 p2 w d bm = Inr bm"
  by (simp add: add_strip_def Let_def)

lemma length_strip_corners: "length (strip_corners point perp1 perp2) = 4"
  by (simp add: strip_corners_def)

lemma add_strip_far:
  assumes far: "\<not> vlength (vsub p2 p1) < 0.001" and wf: "bm_wf bm"
  shows "\<exists>cs. length cs = 8 \<and>
           add_strip p1 p2 w d bm =
             Inr \<lparr>bm_verts = bm_verts bm @ cs,
                  bm_faces = bm_faces bm @ strip_faces [length (bm_verts bm)..<length (bm_verts bm) + 8]\<rparr>"
proof -
  let ?n = "length (bm_verts bm)"
  obtain perp1 perp2 where perps: "strip_perps (normalize (vsub p2 p1)) w d = (perp1, perp2)"
    by (cases "strip_perps (normalize (vsub p2 p1)) w d")
  let ?cs = "strip_corners p1 perp1 perp2 @ strip_corners p2 perp1 perp2"
  have len: "length ?cs = 8"
    by (simp add: length_strip_corners)
  have old: "list_all (\<lambda>g. list_all (\<lambda>v. v < ?n) g) (bm_faces (bm\<lparr>bm_verts := bm_verts bm @ ?cs\<rparr>))"
    using wf by (simp add: bm_wf_def)
  have "add_strip p1 p2 w d bm =
      faces_new_all (bm\<lparr>bm_verts := bm_verts bm @ ?cs\<rparr>) (strip_faces [?n..<?n + 8])"
    using far by (simp add: add_strip_def Let_def perps verts_new_all_eq length_strip_corners)
  also have "\<dots> = Inr \<lparr>bm_verts = bm_verts bm @ ?cs, bm_faces = bm_faces bm @ strip_faces [?n..<?n + 8]\<rparr>"
    unfolding strip_faces_new_all [OF old] by simp
  finally show ?thesis
    using len by blast
qed

lemma add_strip_built:
  assumes far: "\<not> vlength (vsub p2 p1) < 0.001" and wf: "bm_wf bm"
  shows "\<exists>bm'. add_strip p1 p2 w d bm = Inr bm' \<and>
           length (bm_verts bm') = length (bm_verts bm) + 8 \<and>
           length (bm_faces bm') = length (bm_faces bm) + 6 \<and>
           take (length (bm_faces bm)) (bm_faces bm') = bm_faces bm \<and>
           bm_wf bm'"
proof -
  let ?n = "length (bm_verts bm)"
  obtain cs where cs: "length cs = 8"
      "add_strip p1 p2 w d bm =
         Inr \<lparr>bm_verts = bm_verts bm @ cs, bm_faces = bm_faces bm @ strip_faces [?n..<?n + 8]\<rparr>"
    using add_strip_far [OF far wf] by blast
  have new: "list_all (\<lambda>f. list_all (\<lambda>v. v < ?n + 8) f) (strip_faces [?n..<?n + 8])"
    by (simp add: strip_faces_upt)
  have "v < ?n + 8" if "f \<in> set (bm_faces bm)" "v \<in> set f" for f v
  proof -
    have "v < ?n" using wf that by (auto simp: bm_wf_def list_all_iff)
    then show ?thesis by simp
  qed
  then have "list_all (\<lambda>f. list_all (\<lambda>v. v < ?n + 8) f) (bm_faces bm)"
    by (simp add: list_all_iff)
  with new have "bm_wf \<lparr>bm_verts = bm_verts bm @ cs, bm_faces = bm_faces bm @ strip_faces [?n..<?n + 8]\<rparr>"
    by (simp add: bm_wf_def cs(1))
  then show ?thesis
    by (simp add: cs strip_faces_upt)
qed

text \<open>
  Claim C7. A sweep along a path of \<open>k\<close> waypoints whose consecutive waypoints are all at
  least 0.001 apart builds exactly \<open>k - 1\<close> segments (and adds as many objects to the
  scene). A path with one pair of equal consecutive waypoints, \<open>pre @ [q, q] @ post\<close>,
  all other consecutive pairs being at least 0.001 apart, builds exactly \<open>k - 2\<close>
  segments. The loop has no way to fail. For the box strips of the Upright cabinet: a
  strip between two points at least 0.001 apart adds one box (8 vertices, 6 faces) to a
  well-formed bmesh and does not raise; a strip between equal points leaves the bmesh as
  it is.
\<close>

theorem sweep_segment_count:
  "(path \<noteq> [] \<and> well_separated path \<longrightarrow>
      length (fst (tube_segments path r s)) = length path - 1 \<and>
      length (objects (snd (tube_segments path r s))) = length (objects s) + (length path - 1)) \<and>
   (well_separated (pre @ [q]) \<and> well_separated (q # post) \<longrightarrow>
      length (fst (tube_segments (pre @ q # q # post) r s)) = length (pre @ q # q # post) - 2) \<and>
   (\<not> vlength (vsub p2 p1) < 0.001 \<and> bm_wf bm \<longrightarrow>
      (\<exists>bm'. add_strip p1 p2 w d bm = Inr bm' \<and>
         length (bm_verts bm') = length (bm_verts bm) + 8 \<and>
         length (bm_faces bm') = length (bm_faces bm) + 6 \<and>
         bm_wf bm')) \<and>
   add_strip p1 p1 w d bm = Inr bm"
proof (intro conjI impI)
  let ?far = "\<lambda>(p1, p2). \<not> vlength (vsub p2 p1) < 0.001"
  {
    assume "path \<noteq> [] \<and> well_separated path"
    then have ne: "path \<noteq> []" and sep: "list_all ?far (zip path (tl path))"
      by (simp_all add: well_separated_def)
    have n: "length (filter ?far (zip path (tl path))) = length path - 1"
      unfolding filter_all [OF sep] by simp
    show "length (fst (tube_segments path r s)) = length path - 1"
      using tube_segments_count [of path r s] n by simp
    show "length (objects (snd (tube_segments path r s))) = length (objects s) + (length path - 1)"
      using tube_segments_count [of path r s] n by simp
  }
  {
    assume "well_separated (pre @ [q]) \<and> well_separated (q # post)"
    then have a: "list_all ?far (zip (pre @ [q]) (tl (pre @ [q])))"
      and b: "list_all ?far (zip (q # post) post)"
      by (simp_all add: well_separated_def)
    have split: "zip (pre @ q # q # post) (tl (pre @ q # q # post)) =
        zip (pre @ [q]) (tl (pre @ [q])) @ (q, q) # zip (q # post) post"
      using zip_tl_append [of pre q "q # post"] by simp
    have "\<not> ?far (q, q)"
      by (simp add: vlength_vsub_self)
    then have "filter ?far (zip (pre @ q # q # post) (tl (pre @ q # q # post))) =
        zip (pre @ [q]) (tl (pre @ [q])) @ zip (q # post) post"
      unfolding split filter_append filter.simps filter_all [OF a] filter_all [OF b] by simp
    then have "length (filter ?far (zip (pre @ q # q # post) (tl (pre @ q # q # post)))) =
        length pre + length post"
      by simp
    then show "length (fst (tube_segments (pre @ q # q # post) r s)) = length (pre @ q # q # post) - 2"
      using tube_segments_count [of "pre @ q # q # post" r s] by simp
  }
  {
    assume "\<not> vlength (vsub p2 p1) < 0.001 \<and> bm_wf bm"
    then show "\<exists>bm'. add_strip p1 p2 w d bm = Inr bm' \<and>
         length (bm_verts bm') = length (bm_verts bm) + 8 \<and>
         length (bm_faces bm') = length (bm_faces bm) + 6 \<and>
         bm_wf bm'"
      using add_strip_built [of p2 p1 bm w d] by blast
  }
  show "add_strip p1 p1 w d bm = Inr bm"
    by (simp add: add_strip_short vlength_vsub_self)
qed

theorem sweep_segment_count_witness:
  "well_separated [(0, 0, 0), (1, 0, 0), (1, 1, 0)] \<and>
   length (fst (tube_segments [(0, 0, 0), (1, 0, 0), (1, 1, 0)] 0.006
      \<lparr>objects = [], selected = [], active = None, next_oid = 0\<rparr>)) = 3 - 1 \<and>
   well_separated ([(0, 0, 0)] @ [(1, 0, 0)]) \<and> well_separated ((1, 0, 0) # [(1, 1, 0)]) \<and>
   length (fst (tube_segments ([(0, 0, 0)] @ (1, 0, 0) # (1, 0, 0) # [(1, 1, 0)]) 0.006
      \<lparr>objects = [], selected = [], active = None, next_oid = 0\<rparr>)) = 4 - 2 \<and>
   \<not> vlength (vsub (1, 0, 0) (0, 0, 0)) < 0.001 \<and> bm_wf bmesh_new \<and>
   (\<exists>bm'. add_strip (0, 0, 0) (1, 0, 0) 0.012 0.008 bmesh_new = Inr bm' \<and>
      length (bm_verts bm') = 8 \<and> length (bm_faces bm') = 6)"
proof -
  let ?s = "\<lparr>objects = [], selected = [], active = None, next_oid = 0\<rparr>"
  have h1: "well_separated [(0, 0, 0), (1, 0, 0), (1, 1, 0)]"
    by (simp add: well_separated_def short_iff)
  have h2: "well_separated ([(0, 0, 0)] @ [(1, 0, 0)])" "well_separated ((1, 0, 0) # [(1, 1, 0)])"
    by (simp_all add: well_separated_def short_iff)
  have h3: "\<not> vlength (vsub (1, 0, 0) (0, 0, 0)) < 0.001" "bm_wf bmesh_new"
    by (simp_all add: short_iff bm_wf_def bmesh_new_def)
  have l: "length (bm_verts bmesh_new) = 0" "length (bm_faces bmesh_new) = 0"
    by (simp_all add: bmesh_new_def)
  note t = sweep_segment_count [of "[(0, 0, 0), (1, 0, 0), (1, 1, 0)]" "0.006" ?s
      "[(0, 0, 0)]" "(1, 0, 0)" "[(1, 1, 0)]" "(1, 0, 0)" "(0, 0, 0)" bmesh_new "0.012" "0.008"]
  have 1: "length (fst (tube_segments [(0, 0, 0), (1, 0, 0), (1, 1, 0)] 0.006 ?s)) = 3 - 1"
    using t h1 by simp
  have 2: "length (fst (tube_segments ([(0, 0, 0)] @ (1, 0, 0) # (1, 0, 0) # [(1, 1, 0)]) 0.006 ?s)) = 4 - 2"
    using t h2 by simp
  have 3: "\<exists>bm'. add_strip (0, 0, 0) (1, 0, 0) 0.012 0.008 bmesh_new = Inr bm' \<and>
      length (bm_verts bm') = 8 \<and> length (bm_faces bm') = 6"
    using t h3 l by auto
  show ?thesis
    using h1 h2 h3 1 2 3 by blast
qed

section \<open>The meshes of the parts are built without error\<close>

lemma side_panel_mesh_ok: "\<exists>m. side_panel_mesh is_right = Inr m"
  by (simp add: side_panel_mesh_eq)

lemma side_panel_mesh_driving_ok: "\<exists>m. side_panel_mesh_driving is_right = Inr m"
proof -
  have "3 \<le> length profile_2d_driving"
    by (simp add: profile_2d_driving_def)
  then show ?thesis
    by (simp add: side_panel_mesh_driving_def Let_def extrude_profile_eq)
qed

lemma side_panel_mesh_lightgun_ok: "\<exists>m. side_panel_mesh_lightgun is_right = Inr m"
proof -
  have "3 \<le> length profile_2d_lightgun"
    by (simp add: profile_2d_lightgun_def)
  then show ?thesis
    by (simp add: side_panel_mesh_lightgun_def Let_def extrude_profile_eq)
qed

lemma seat_mesh_ok: "\<exists>m. seat_mesh = Inr m"
  by (simp add: seat_mesh_def Let_def verts_new_all_eq bmesh_new_def box_faces_def
      faces_new_def face_exists_def)

lemma t_molding_mesh_ok: "\<exists>m. t_molding_mesh = Inr m"
proof -
  have wf0: "bm_wf bmesh_new"
    by (simp add: bm_wf_def bmesh_new_def)
  have f1: "\<not> vlength (vsub (-0.04, -0.26, 1.90) (-0.04, -0.26, 0.02)) < 0.001"
    and f2: "\<not> vlength (vsub (-0.04, 0.26, 1.90) (-0.04, 0.26, 0.02)) < 0.001"
    and f3: "\<not> vlength (vsub (-0.04, 0.26, 0.02) (-0.04, -0.26, 0.02)) < 0.001"
    and f4: "\<not> vlength (vsub (-0.08, 0.26, 1.90) (-0.08, -0.26, 1.90)) < 0.001"
    and f5: "\<not> vlength (vsub (-0.04, 0.26, 0.70) (-0.04, -0.26, 0.70)) < 0.001"
    by (simp_all add: short_iff)
  obtain bm1 where 1: "add_strip (-0.04, -0.26, 0.02) (-0.04, -0.26, 1.90) 0.012 0.008 bmesh_new = Inr bm1"
      and wf1: "bm_wf bm1"
    using add_strip_built [OF f1 wf0] by blast
  obtain bm2 where 2: "add_strip (-0.04, 0.26, 0.02) (-0.04, 0.26, 1.90) 0.012 0.008 bm1 = Inr bm2"
      and wf2: "bm_wf bm2"
    using add_strip_built [OF f2 wf1] by blast
  obtain bm3 where 3: "add_strip (-0.04, -0.26, 0.02) (-0.04, 0.26, 0.02) 0.012 0.008 bm2 = Inr bm3"
      and wf3: "bm_wf bm3"
    using add_strip_built [OF f3 wf2] by blast
  obtain bm4 where 4: "add_strip (-0.08, -0.26, 1.90) (-0.08, 0.26, 1.90) 0.012 0.008 bm3 = Inr bm4"
      and wf4: "bm_wf bm4"
    using add_strip_built [OF f4 wf3] by blast
  obtain bm5 where 5: "add_strip (-0.04, -0.26, 0.70) (-0.04, 0.26, 0.70) 0.012 0.008 bm4 = Inr bm5"
    using add_strip_built [OF f5 wf4] by blast
  show ?thesis
    unfolding t_molding_mesh_def Let_def 1 bind_err.simps 2 3 4 5 by simp
qed

section \<open>The scene seen through its nodes\<close>

text \<open>Names, parents, selection, active object and the next identity after each
  operation of the host, as functions of what they were before.\<close>

lemma add_operator_pair: "add_operator nm g loc s = (next_oid s, add_state nm g loc s)"
  by (simp add: add_state_def add_operator_def Let_def)

lemma objects_new_pair: "objects_new nm m s = (next_oid s, new_state nm m s)"
  by (simp add: new_state_def objects_new_def Let_def)

lemma nodes_simps:
  "nodes (clear_scene s) = []"
  "nodes (add_state nm g loc s) = nodes s @ [(next_oid s, nm, None)]"
  "nodes (new_state nm m s) = nodes s @ [(next_oid s, nm, None)]"
  "nodes (set_name i nm s) = map (\<lambda>(k, n, p). if k = i then (k, nm, p) else (k, n, p)) (nodes s)"
  "nodes (set_parent i q s) = map (\<lambda>(k, n, p). if k = i then (k, n, Some q) else (k, n, p)) (nodes s)"
  "nodes (set_location i loc s) = nodes s"
  "nodes (set_rotation_axis_angle i rot s) = nodes s"
  "nodes (select_all_deselect s) = nodes s"
  "nodes (select_set i s) = nodes s"
  "nodes (set_active i s) = nodes s"
  "nodes (join s) =
     (case active s of None \<Rightarrow> nodes s
      | Some a \<Rightarrow> filter (\<lambda>(k, n, p). \<not> (k \<in> set (selected s) \<and> k \<noteq> a)) (nodes s))"
  by (auto simp: nodes_def clear_scene_def add_state_def add_operator_def new_state_def
      objects_new_def set_name_def set_parent_def set_location_def set_rotation_axis_angle_def
      update_obj_def select_all_deselect_def select_set_def set_active_def join_def Let_def
      filter_map comp_def split: option.splits)

lemma next_oid_simps:
  "next_oid (clear_scene s) = 0"
  "next_oid (add_state nm g loc s) = next_oid s + 1"
  "next_oid (new_state nm m s) = next_oid s + 1"
  "next_oid (set_name i nm s) = next_oid s"
  "next_oid (set_parent i q s) = next_oid s"
  "next_oid (set_location i loc s) = next_oid s"
  "next_oid (set_rotation_axis_angle i rot s) = next_oid s"
  "next_oid (select_all_deselect s) = next_oid s"
  "next_oid (select_set i s) = next_oid s"
  "next_oid (set_active i s) = next_oid s"
  "next_oid (join s) = next_oid s"
  by (auto simp: clear_scene_def add_state_def add_operator_def new_state_def
      objects_new_def set_name_def set_parent_def set_location_def set_rotation_axis_angle_def
      update_obj_def select_all_deselect_def select_set_def set_active_def join_def Let_def
      split: option.splits)

lemma selected_simps:
  "selected (clear_scene s) = []"
  "selected (add_state nm g loc s) = [next_oid s]"
  "selected (new_state nm m s) = selected s"
  "selected (set_name i nm s) = selected s"
  "selected (set_parent i q s) = selected s"
  "selected (set_location i loc s) = selected s"
  "selected (set_rotation_axis_angle i rot s) = selected s"
  "selected (select_all_deselect s) = []"
  "selected (select_set i s) = selected s @ [i]"
  "selected (set_active i s) = selected s"
  "selected (join s) = (case active s of None \<Rightarrow> selected s | Some a \<Rightarrow> [a])"
  by (auto simp: clear_scene_def add_state_def add_operator_def new_state_def
      objects_new_def set_name_def set_parent_def set_location_def set_rotation_axis_angle_def
      update_obj_def select_all_deselect_def select_set_def set_active_def join_def Let_def
      split: option.splits)

lemma active_simps:
  "active (clear_scene s) = None"
  "active (add_state nm g loc s) = Some (next_oid s)"
  "active (new_state nm m s) = active s"
  "active (set_name i nm s) = active s"
  "active (set_parent i q s) = active s"
  "active (set_location i loc s) = active s"
  "active (set_rotation_axis_angle i rot s) = active s"
  "active (select_all_deselect s) = active s"
  "active (select_set i s) = active s"
  "active (set_active i s) = Some i"
  "active (join s) = active s"
  by (auto simp: clear_scene_def add_state_def add_operator_def new_state_def
      objects_new_def set_name_def set_parent_def set_location_def set_rotation_axis_angle_def
      update_obj_def select_all_deselect_def select_set_def set_active_def join_def Let_def
      split: option.splits)

lemmas prim_defs = empty_add_def primitive_cube_add_def primitive_plane_add_def
  primitive_cylinder_add_def primitive_torus_add_def primitive_uv_sphere_add_def

lemmas scene_eval = prim_defs add_operator_pair objects_new_pair nodes_simps next_oid_simps
  selected_simps active_simps Let_def

lemma Inr_projr: "\<exists>m. x = Inr m \<Longrightarrow> x = Inr (projr x)"
  by auto

lemma upt_0_3: "[0..<3] = [0, 1, 2]"
  by (simp add: upt_rec)

section \<open>The nodes of the four cabinets\<close>

lemma create_cabinet_nodes:
  "\<exists>s. create_cabinet s0 = Inr (0, s) \<and>
     nodes s =
       [(0, ''cabinet-root'', None), (1, ''left'', Some 0), (2, ''right'', Some 0),
        (3, ''back'', Some 0), (4, ''top'', Some 0), (5, ''bottom'', Some 0),
        (6, ''front-kick'', Some 0), (7, ''marquee-box'', Some 0), (8, ''marquee'', Some 0),
        (9, ''bezel'', Some 0), (10, ''screen'', Some 0), (11, ''cp-shell'', Some 0),
        (12, ''joystick'', Some 0), (13, ''coin-door'', Some 0), (14, ''speaker'', Some 0),
        (15, ''t-molding'', Some 0), (16, ''screen-mock-vertical'', Some 0),
        (17, ''screen-mock-horizontal'', Some 0)]"
proof -
  obtain mL mR mB mC mT where m: "side_panel_mesh False = Inr mL" "side_panel_mesh True = Inr mR"
      "bezel_mesh_cabinet = Inr mB" "cp_shell_mesh = Inr mC" "t_molding_mesh = Inr mT"
    using side_panel_mesh_ok bezel_mesh_cabinet_ok cp_shell_mesh_ok t_molding_mesh_ok by metis
  show ?thesis
    by (simp add: create_cabinet_def create_side_panel_def create_flat_panel_def create_screen_def
       create_bezel_with_cutout_cabinet_def create_t_molding_def m scene_eval)
qed

lemma create_cocktail_cabinet_nodes:
  "\<exists>s. create_cocktail_cabinet s0 = Inr (0, s) \<and>
     nodes s =
       [(0, ''cabinet-root'', None), (1, ''bezel'', Some 0), (2, ''screen'', Some 0),
        (3, ''screen-mock-horizontal'', Some 0), (4, ''screen-mock-vertical'', Some 0),
        (5, ''left'', Some 0), (6, ''right'', Some 0), (7, ''back'', Some 0),
        (8, ''front'', Some 0), (9, ''top'', Some 0), (10, ''bottom'', Some 0),
        (11, ''joystick'', Some 0), (12, ''joystick-2'', Some 0), (13, ''marquee'', Some 0),
        (14, ''coin-door'', Some 0), (15, ''leg-1'', Some 0), (16, ''leg-2'', Some 0),
        (17, ''leg-3'', Some 0), (18, ''leg-4'', Some 0), (19, ''t-molding'', Some 0),
        (23, ''speaker'', Some 0)]"
proof -
  define M where "M = (\<lambda>a b c d t. projr (bezel_mesh_cocktail a b c d t))"
  have m: "\<And>a b c d t. bezel_mesh_cocktail a b c d t = Inr (M a b c d t)"
    unfolding M_def by (rule Inr_projr) (use bezel_mesh_cocktail_ok in blast)
  show ?thesis
    by (simp add: create_cocktail_cabinet_def create_bezel_with_cutout_cocktail_def m
       create_box_def create_t_molding_cocktail_def join_segments_def
       create_tube_segment_eq short_iff scene_eval)
qed

lemma create_driving_cabinet_nodes:
  "\<exists>s. create_driving_cabinet s0 = Inr (0, s) \<and>
     nodes s =
       [(0, ''cabinet-root'', None), (1, ''left'', Some 0), (2, ''right'', Some 0),
        (3, ''back'', Some 0), (4, ''top'', Some 0), (5, ''bottom'', Some 0),
        (6, ''dashboard'', Some 0), (7, ''marquee'', Some 0), (8, ''marquee-box'', Some 0),
        (9, ''bezel'', Some 0), (10, ''screen'', Some 0),
        (11, ''screen-mock-horizontal'', Some 0), (12, ''screen-mock-vertical'', Some 0),
        (13, ''steering-wheel'', Some 0), (18, ''steering-column'', Some 0),
        (19, ''gas-pedal'', Some 0), (20, ''brake-pedal'', Some 0),
        (21, ''gear-shifter'', Some 0), (24, ''seat'', Some 0), (25, ''coin-door'', Some 0),
        (26, ''speaker'', Some 0), (27, ''front-kick'', Some 0), (28, ''t-molding'', Some 0)]"
proof -
  define M where "M = (\<lambda>a b c d t. projr (bezel_mesh_upright_plane a b c d t))"
  have m: "\<And>a b c d t. bezel_mesh_upright_plane a b c d t = Inr (M a b c d t)"
    unfolding M_def by (rule Inr_projr) (use bezel_mesh_upright_plane_ok in blast)
  obtain mL mR mS where ms: "side_panel_mesh_driving False = Inr mL"
      "side_panel_mesh_driving True = Inr mR" "seat_mesh = Inr mS"
    using side_panel_mesh_driving_ok seat_mesh_ok by metis
  show ?thesis
    by (simp add: create_driving_cabinet_def create_side_panel_driving_def
       create_bezel_with_cutout_driving_def m ms create_box_def create_steering_wheel_def
       create_pedals_def create_gear_shifter_def create_seat_def upt_0_3
       create_t_molding_driving_def join_segments_def
       create_tube_segment_eq short_iff scene_eval)
qed

lemma create_lightgun_cabinet_nodes:
  "\<exists>s. create_lightgun_cabinet s0 = Inr (0, s) \<and>
     nodes s =
       [(0, ''cabinet-root'', None), (1, ''left'', Some 0), (2, ''right'', Some 0),
        (3, ''back'', Some 0), (4, ''top'', Some 0), (5, ''bottom'', Some 0),
        (6, ''front'', Some 0), (7, ''front-lower'', Some 0), (8, ''marquee'', Some 0),
        (9, ''marquee-box'', Some 0), (10, ''bezel'', Some 0), (11, ''screen'', Some 0),
        (12, ''screen-mock-horizontal'', Some 0), (13, ''screen-mock-vertical'', Some 0),
        (14, ''gun'', Some 0), (17, ''gun2'', Some 0), (20, ''gun-shelf'', Some 0),
        (21, ''coin-door'', Some 0), (22, ''speaker'', Some 0), (23, ''pedal'', Some 0),
        (24, ''t-molding'', Some 0)]"
proof -
  define M where "M = (\<lambda>a b c d t. projr (bezel_mesh_upright_plane a b c d t))"
  have m: "\<And>a b c d t. bezel_mesh_upright_plane a b c d t = Inr (M a b c d t)"
    unfolding M_def by (rule Inr_projr) (use bezel_mesh_upright_plane_ok in blast)
  obtain mL mR where ms: "side_panel_mesh_lightgun False = Inr mL"
      "side_panel_mesh_lightgun True = Inr mR"
    using side_panel_mesh_lightgun_ok by metis
  show ?thesis
    by (simp add: create_lightgun_cabinet_def create_side_panel_lightgun_def
       create_bezel_with_cutout_lightgun_def m ms create_box_def create_gun_def
       create_t_molding_lightgun_def join_segments_def
       create_tube_segment_eq short_iff scene_eval)
qed

section \<open>The node tree of a finished cabinet\<close>

text \<open>
  C1. Each of the four builds (Upright, Cocktail, Driving, LightGun) completes, from
  any scene it is started in, and in the scene it produces exactly one node is named
  \<open>cabinet-root\<close>; that node is the one the build returns and it has no parent; from
  every node of the scene the parent links lead to it (every other node is a child of
  the root).
\<close>

theorem build_variant_single_rooted:
  "\<exists>r s. build_variant v s0 = Inr (r, s) \<and> single_rooted r s"
proof (cases v)
  case Upright
  with create_cabinet_nodes [of s0] show ?thesis
    by (clarsimp simp: single_rooted_def)
next
  case Cocktail
  with create_cocktail_cabinet_nodes [of s0] show ?thesis
    by (clarsimp simp: single_rooted_def)
next
  case Driving
  with create_driving_cabinet_nodes [of s0] show ?thesis
    by (clarsimp simp: single_rooted_def)
next
  case LightGun
  with create_lightgun_cabinet_nodes [of s0] show ?thesis
    by (clarsimp simp: single_rooted_def)
qed

theorem build_variant_single_rooted_witness:
  "\<exists>r s. build_variant Driving
       \<lparr>objects = [], selected = [], active = None, next_oid = 0\<rparr> = Inr (r, s) \<and>
     single_rooted r s"
  using build_variant_single_rooted
    [of Driving "\<lparr>objects = [], selected = [], active = None, next_oid = 0\<rparr>"]
  by simp

text \<open>
  C2. Each of the four builds completes, and the scene it produces has a node of each
  of the thirteen required names: left, right, back, top, bottom, bezel, screen,
  screen-mock-horizontal, screen-mock-vertical, marquee, coin-door, speaker and
  t-molding.
\<close>

theorem build_variant_required_names:
  "\<exists>r s. build_variant v s0 = Inr (r, s) \<and>
     list_all (\<lambda>nm. nm \<in> set (node_names s)) required_names"
proof (cases v)
  case Upright
  with create_cabinet_nodes [of s0] show ?thesis
    by (clarsimp simp: node_names_def required_names_def)
next
  case Cocktail
  with create_cocktail_cabinet_nodes [of s0] show ?thesis
    by (clarsimp simp: node_names_def required_names_def)
next
  case Driving
  with create_driving_cabinet_nodes [of s0] show ?thesis
    by (clarsimp simp: node_names_def required_names_def)
next
  case LightGun
  with create_lightgun_cabinet_nodes [of s0] show ?thesis
    by (clarsimp simp: node_names_def required_names_def)
qed

theorem build_variant_required_names_witness:
  "\<exists>r s. build_variant Cocktail
       \<lparr>objects = [], selected = [], active = None, next_oid = 0\<rparr> = Inr (r, s) \<and>
     list_all (\<lambda>nm. nm \<in> set (node_names s)) required_names"
  using build_variant_required_names
    [of Cocktail "\<lparr>objects = [], selected = [], active = None, next_oid = 0\<rparr>"]
  by simp

text \<open>
  C9. The LightGun build completes and its scene has a node named \<open>gun\<close> and a node
  named \<open>gun2\<close>, and no node whose name contains \<open>steering\<close>. It does have a pedal: the
  foot pedal of the cabinet, a box named \<open>pedal\<close>, is the one node whose name contains
  \<open>pedal\<close> (the \<open>gas-pedal\<close> and \<open>brake-pedal\<close> of the Driving cabinet are not made).
\<close>

theorem lightgun_guns_and_pedal:
  "\<exists>r s. build_variant LightGun s0 = Inr (r, s) \<and>
     ''gun'' \<in> set (node_names s) \<and> ''gun2'' \<in> set (node_names s) \<and>
     filter (contains ''steering'') (node_names s) = [] \<and>
     filter (contains ''pedal'') (node_names s) = [''pedal'']"
  using create_lightgun_cabinet_nodes [of s0]
  by (clarsimp simp: node_names_def)

theorem lightgun_guns_and_pedal_witness:
  "\<exists>r s. build_variant LightGun
       \<lparr>objects = [], selected = [], active = None, next_oid = 0\<rparr> = Inr (r, s) \<and>
     ''gun'' \<in> set (node_names s) \<and> ''gun2'' \<in> set (node_names s) \<and>
     filter (contains ''steering'') (node_names s) = [] \<and>
     filter (contains ''pedal'') (node_names s) = [''pedal'']"
  using lightgun_guns_and_pedal
    [of "\<lparr>objects = [], selected = [], active = None, next_oid = 0\<rparr>"]
  by simp

text \<open>The scene of the LightGun build has a node named \<open>pedal\<close>.\<close>

theorem lightgun_pedal_counterexample:
  "''pedal'' \<in> set (node_names (snd (projr (build_variant LightGun
       \<lparr>objects = [], selected = [], active = None, next_oid = 0\<rparr>))))"
  using create_lightgun_cabinet_nodes
    [of "\<lparr>objects = [], selected = [], active = None, next_oid = 0\<rparr>"]
  by (clarsimp simp: node_names_def)

end
